theory Spec2Isabelle
  imports Complex_Main
begin

section \<open>The label layout engine of unificacion.py\<close>

text \<open>
  The engine of \<^verbatim>\<open>src/unificacion.py\<close> (lines 109 to 421, and the row
  function of lines 1218 to 1338) is embedded function by function. Python's \<^verbatim>\<open>float\<close>
  is read as an exact real number: every arithmetic operation and comparison of the
  source is the corresponding operation on \<^typ>\<open>real\<close>, so rounding of binary floating
  point is outside the model. Python's \<^verbatim>\<open>int\<close> is \<^typ>\<open>int\<close>. A division of the
  source is a function that can raise, so that every division site is a branch of the
  model and the absence of \<^verbatim>\<open>ZeroDivisionError\<close> is a theorem, not an assumption.
\<close>

subsection \<open>Python arithmetic\<close>

datatype py_error = ZeroDivisionError

text \<open>\<^verbatim>\<open>a / b\<close> on numbers.\<close>

definition py_truediv :: "real \<Rightarrow> real \<Rightarrow> py_error + real" where
  "py_truediv a b = (if b = 0 then Inl ZeroDivisionError else Inr (a / b))"

text \<open>\<^verbatim>\<open>a // b\<close> on floats: the floor of the quotient, still a float.\<close>

definition py_floordiv :: "real \<Rightarrow> real \<Rightarrow> py_error + real" where
  "py_floordiv a b = (if b = 0 then Inl ZeroDivisionError else Inr (of_int \<lfloor>a / b\<rfloor>))"

text \<open>\<^verbatim>\<open>int(x)\<close> on a float truncates toward zero.\<close>

definition py_int :: "real \<Rightarrow> int" where
  "py_int x = (if 0 \<le> x then \<lfloor>x\<rfloor> else \<lceil>x\<rceil>)"

text \<open>The decimal numeral that an f-string prints for an \<^verbatim>\<open>int\<close>.\<close>

definition digito :: "nat \<Rightarrow> char" where
  "digito k = ''0123456789'' ! k"

function str_nat :: "nat \<Rightarrow> string" where
  "str_nat k = (if k < 10 then [digito k] else str_nat (k div 10) @ [digito (k mod 10)])"
  by pat_completeness auto
termination
  by (relation "measure (\<lambda>k. k)") auto

declare str_nat.simps [simp del]

definition str_int :: "int \<Rightarrow> string" where
  "str_int i = (if i < 0 then CHR ''-'' # str_nat (nat (- i)) else str_nat (nat i))"

subsection \<open>Constants (lines 109 to 123)\<close>

definition FACTOR_CILINDRO_A_MM :: real where "FACTOR_CILINDRO_A_MM = 3.175"
definition ROLLO_BASE_MM :: real where "ROLLO_BASE_MM = 330"
definition BANDERA_HORIZONTAL :: real where "BANDERA_HORIZONTAL = 20"
definition GAP_HORIZONTAL_OBJETIVO :: real where "GAP_HORIZONTAL_OBJETIVO = 2.7"
definition GAP_VERTICAL_OBJETIVO :: real where "GAP_VERTICAL_OBJETIVO = 2.7"
definition GAP_VERTICAL_MIN :: real where "GAP_VERTICAL_MIN = 2.5"
definition GAP_VERTICAL_MAX :: real where "GAP_VERTICAL_MAX = 20"
definition MAX_REPETICIONES_VERTICALES :: int where "MAX_REPETICIONES_VERTICALES = 8"
definition AJUSTE_DESARROLLO_REP_MM :: real where "AJUSTE_DESARROLLO_REP_MM = 0.75"

text \<open>\<^verbatim>\<open>sorted([...], reverse=True)\<close>: the catalog in descending order.\<close>

definition CILINDROS_FB :: "int list" where
  "CILINDROS_FB = rev (sort [60, 67, 70, 74, 77, 80, 84, 88, 91, 97, 99, 102, 105, 107, 108, 111,
                             116, 117, 122, 127, 129, 168])"

subsection \<open>calcular\_metraje\_material (lines 247 to 283)\<close>

record metraje =
  repeticiones_reales :: real
  ml :: real
  m2 :: real

definition calcular_metraje_material ::
  "int \<Rightarrow> int \<Rightarrow> real \<Rightarrow> real \<Rightarrow> real \<Rightarrow> py_error + metraje" where
  "calcular_metraje_material unidades etq_repeat desarrollo_mm ancho_rollo_mm ajuste_mm =
     (if etq_repeat \<le> 0 \<or> desarrollo_mm \<le> 0 \<or> ancho_rollo_mm \<le> 0
      then Inr \<lparr>repeticiones_reales = 0, ml = 0, m2 = 0\<rparr>
      else
        case py_truediv (of_int unidades) (of_int etq_repeat) of
          Inl e \<Rightarrow> Inl e
        | Inr reps \<Rightarrow>
            let longitud_sin_merma_mm = reps * desarrollo_mm;
                merma_mm = reps * ajuste_mm;
                longitud_total_mm = longitud_sin_merma_mm + merma_mm;
                ml_v = longitud_total_mm / 1000;
                m2_v = ml_v * (ancho_rollo_mm / 1000)
            in Inr \<lparr>repeticiones_reales = reps, ml = ml_v, m2 = m2_v\<rparr>)"

subsection \<open>evaluar\_z\_uniforme (lines 125 to 195)\<close>

text \<open>
  The message of an evaluation. The first one stands for the f-string
  \<^verbatim>\<open>Desarrollo {desarrollo:.1f} mm < Alto etiqueta {alto_etq} mm\<close> and keeps the two
  numbers it prints; the other two are the constant messages of the source.
\<close>

datatype detalle = DesarrolloMenorQueAlto real real | DetalleOK | SinCombinacionValida

text \<open>
  Class \<^verbatim>\<open>EvaluacionZUniforme\<close>. The attributes \<^verbatim>\<open>z\<close>, \<^verbatim>\<open>n\<close>, \<^verbatim>\<open>gap\<close>, ...
  carry the prefix \<open>ev_\<close> here.
\<close>

record EvaluacionZUniforme =
  ev_z :: int
  ev_desarrollo_mm :: real
  ev_n :: int
  ev_gap :: real
  ev_diff_obj :: real
  ev_valido :: bool
  ev_detalle :: detalle

text \<open>
  The loop \<^verbatim>\<open>for n in range(1, max_n + 1)\<close> over the remaining values of \<open>n\<close>, with
  the running \<^verbatim>\<open>mejor\<close> (a triple \<open>(n, gap, diff)\<close> or \<^verbatim>\<open>None\<close>). The
  \<^verbatim>\<open>break\<close> returns the running best, each \<^verbatim>\<open>continue\<close> goes on with it.
\<close>

fun bucle_n :: "real \<Rightarrow> real \<Rightarrow> real \<Rightarrow> real \<Rightarrow> real \<Rightarrow> int list
    \<Rightarrow> (int \<times> real \<times> real) option \<Rightarrow> py_error + (int \<times> real \<times> real) option" where
  "bucle_n desarrollo alto_etq gap_obj gap_min gap_max [] mejor = Inr mejor"
| "bucle_n desarrollo alto_etq gap_obj gap_min gap_max (k # ks) mejor =
     (if desarrollo < of_int k * alto_etq then Inr mejor
      else
        case py_truediv (desarrollo - of_int k * alto_etq) (of_int k) of
          Inl e \<Rightarrow> Inl e
        | Inr g \<Rightarrow>
            if g < 0 then bucle_n desarrollo alto_etq gap_obj gap_min gap_max ks mejor
            else if k > 1 \<and> (g < gap_min \<or> g > gap_max)
            then bucle_n desarrollo alto_etq gap_obj gap_min gap_max ks mejor
            else
              let g' = (if k = 1 then max g gap_min else g);
                  diff = \<bar>g' - gap_obj\<bar>;
                  cand = (k, g', diff)
              in (case mejor of
                    None \<Rightarrow> bucle_n desarrollo alto_etq gap_obj gap_min gap_max ks (Some cand)
                  | Some (n_best, gap_best, diff_best) \<Rightarrow>
                      if k > n_best \<or> (k = n_best \<and> (diff < diff_best \<or>
                           (diff = diff_best \<and> g' < gap_best)))
                      then bucle_n desarrollo alto_etq gap_obj gap_min gap_max ks (Some cand)
                      else bucle_n desarrollo alto_etq gap_obj gap_min gap_max ks mejor))"

definition evaluar_z_uniforme ::
  "int \<Rightarrow> real \<Rightarrow> real \<Rightarrow> real \<Rightarrow> real \<Rightarrow> int \<Rightarrow> py_error + EvaluacionZUniforme" where
  "evaluar_z_uniforme z alto_etq gap_obj gap_min gap_max max_n =
     (let desarrollo = of_int z * FACTOR_CILINDRO_A_MM in
      if desarrollo < alto_etq
      then Inr \<lparr>ev_z = z, ev_desarrollo_mm = desarrollo, ev_n = 0, ev_gap = 0,
                ev_diff_obj = 9999, ev_valido = False,
                ev_detalle = DesarrolloMenorQueAlto desarrollo alto_etq\<rparr>
      else
        case bucle_n desarrollo alto_etq gap_obj gap_min gap_max [1..max_n] None of
          Inl e \<Rightarrow> Inl e
        | Inr (Some (n_sel, gap_sel, diff_sel)) \<Rightarrow>
            Inr \<lparr>ev_z = z, ev_desarrollo_mm = desarrollo, ev_n = n_sel, ev_gap = gap_sel,
                 ev_diff_obj = diff_sel, ev_valido = True, ev_detalle = DetalleOK\<rparr>
        | Inr None \<Rightarrow>
            Inr \<lparr>ev_z = z, ev_desarrollo_mm = desarrollo, ev_n = 0, ev_gap = 0,
                 ev_diff_obj = 9999, ev_valido = False,
                 ev_detalle = SinCombinacionValida\<rparr>)"

subsection \<open>evaluar\_rollo\_estandar (lines 197 to 245)\<close>

text \<open>
  The returned dict. The two early returns have no key \<^verbatim>\<open>ancho_util\<close>, and
  \<^verbatim>\<open>gap_entre\<close> can be \<^verbatim>\<open>None\<close>.
\<close>

record rollo_eval =
  etq_eje :: int
  gap_entre :: "real option"
  aprovechamiento_pct :: real
  ancho_util :: "real option"

definition rollo_nulo :: rollo_eval where
  "rollo_nulo = \<lparr>etq_eje = 0, gap_entre = None, aprovechamiento_pct = 0, ancho_util = None\<rparr>"

text \<open>\<^verbatim>\<open>max(0, int(ancho_util // paso))\<close>, for a floor division \<open>fdiv\<close>.\<close>

definition cuenta_eje ::
  "(real \<Rightarrow> real \<Rightarrow> py_error + real) \<Rightarrow> real \<Rightarrow> real \<Rightarrow> py_error + int" where
  "cuenta_eje fdiv util paso =
     (case fdiv util paso of Inl e \<Rightarrow> Inl e | Inr q \<Rightarrow> Inr (max 0 (py_int q)))"

text \<open>
  The body of the function, with the two division operators of Python as parameters
  \<open>tdiv\<close> (for \<^verbatim>\<open>/\<close>) and \<open>fdiv\<close> (for \<^verbatim>\<open>//\<close>), so that a statement can say which
  divisions a call executes.
\<close>

definition evaluar_rollo_estandar_con ::
  "(real \<Rightarrow> real \<Rightarrow> py_error + real) \<Rightarrow> (real \<Rightarrow> real \<Rightarrow> py_error + real)
   \<Rightarrow> real \<Rightarrow> real \<Rightarrow> real \<Rightarrow> real \<Rightarrow> py_error + rollo_eval" where
  "evaluar_rollo_estandar_con tdiv fdiv ancho_mm ancho_etq gap_h_usado bandera_mm =
     (if ancho_mm \<le> 0 then Inr rollo_nulo
      else
        let paso = ancho_etq + gap_h_usado in
        if paso \<le> 0 then Inr rollo_nulo
        else
          case cuenta_eje fdiv (max 0 (ancho_mm - bandera_mm)) paso of
            Inl e \<Rightarrow> Inl e
          | Inr eje0 \<Rightarrow>
         (case (if eje0 \<le> 0
                then (case cuenta_eje fdiv ancho_mm paso of
                        Inl e \<Rightarrow> Inl e
                      | Inr eje1 \<Rightarrow> Inr (ancho_mm, eje1))
                else Inr (max 0 (ancho_mm - bandera_mm), eje0)) of
            Inl e \<Rightarrow> Inl e
          | Inr (util, eje) \<Rightarrow>
         (case (if eje \<le> 0 \<and> util \<ge> ancho_etq
                then Inr (1, Some (max 0 (util - ancho_etq)))
                else
                  let gap_total = max 0 (util - of_int eje * ancho_etq) in
                  if eje > 1
                  then (case tdiv gap_total (of_int (eje - 1)) of
                          Inl e \<Rightarrow> Inl e
                        | Inr g \<Rightarrow> Inr (eje, Some g))
                  else Inr (eje, None)) of
            Inl e \<Rightarrow> Inl e
          | Inr (eje_final, gap_final) \<Rightarrow>
         (case (if util > 0
                then (case tdiv (of_int eje_final * ancho_etq) util of
                        Inl e \<Rightarrow> Inl e
                      | Inr q \<Rightarrow> Inr (q * 100))
                else Inr 0) of
            Inl e \<Rightarrow> Inl e
          | Inr aprovechamiento \<Rightarrow>
              Inr \<lparr>etq_eje = eje_final, gap_entre = gap_final,
                   aprovechamiento_pct = aprovechamiento, ancho_util = Some util\<rparr>))))"

definition evaluar_rollo_estandar ::
  "real \<Rightarrow> real \<Rightarrow> real \<Rightarrow> real \<Rightarrow> py_error + rollo_eval" where
  "evaluar_rollo_estandar = evaluar_rollo_estandar_con py_truediv py_floordiv"

subsection \<open>obtener\_z\_sugerido (lines 285 to 421)\<close>

text \<open>
  The dict of a solution (\<^verbatim>\<open>es_valido: True\<close>); its keys carry the prefix \<open>sol_\<close>.
  The key \<^verbatim>\<open>rollo_alternativo\<close> exists, with the value \<^verbatim>\<open>True\<close>, only in a dict
  built by the second loop: \<open>sol_rollo_alternativo\<close> says whether it exists.
\<close>

record solucion =
  sol_z :: int
  sol_n :: int
  sol_desarrollo_mm :: real
  sol_gap_vertical :: real
  sol_etq_eje :: int
  sol_gap_horizontal_real :: "real option"
  sol_etq_repeat :: int
  sol_repeticiones :: real
  sol_ml :: real
  sol_m2 :: real
  sol_ancho_rollo_mm :: real
  sol_rollo_alternativo :: bool

text \<open>The dict of an impossibility (\<^verbatim>\<open>es_valido: False\<close>), keys with the prefix \<open>imp_\<close>.\<close>

record imposible =
  imp_z :: int
  imp_ancho_rollo_mm :: real
  imp_motivo_imposibilidad :: "string option"
  imp_gap_horizontal_real :: real

datatype resultado = Valido solucion | NoValido imposible

text \<open>The three messages built by f-strings.\<close>

definition motivo_alto :: "real \<Rightarrow> string" where
  "motivo_alto alto_etq =
     ''Alto '' @ str_int (py_int alto_etq) @ ''mm no cabe en ningun cilindro disponible (60-168mm)''"

definition motivo_ancho :: "real \<Rightarrow> real \<Rightarrow> string" where
  "motivo_ancho ancho_etq ancho_rollo_mm =
     ''Ancho '' @ str_int (py_int ancho_etq) @ ''mm no cabe en rollo ''
       @ str_int (py_int ancho_rollo_mm) @ ''mm''"

definition motivo_ancho_330 :: "real \<Rightarrow> string" where
  "motivo_ancho_330 ancho_etq =
     ''Ancho '' @ str_int (py_int ancho_etq) @ ''mm no cabe incluso en rollo estandar ''
       @ str_int (py_int ROLLO_BASE_MM) @ ''mm''"

text \<open>
  The variables a loop over the catalog updates: \<^verbatim>\<open>mejor\<close>, and
  \<^verbatim>\<open>motivo_imposibilidad\<close> and \<^verbatim>\<open>z_fallback\<close> in the first loop (lines 306 to 351),
  \<^verbatim>\<open>motivo_imposibilidad_330\<close> and \<^verbatim>\<open>z_fallback_330\<close> in the second (lines 362 to
  396).
\<close>

record busqueda =
  mejor :: "solucion option"
  motivo_imposibilidad :: "string option"
  z_fallback :: "int option"

definition busqueda_inicial :: busqueda where
  "busqueda_inicial = \<lparr>mejor = None, motivo_imposibilidad = None, z_fallback = None\<rparr>"

text \<open>
  One iteration of a loop over the catalog. The two loops of the source have the same
  body but for three places, chosen here by \<open>segundo\<close>: the first loop records a
  message for a cylinder that fails vertically and the second does not; the message of
  a horizontal failure differs; the second loop adds the key \<^verbatim>\<open>rollo_alternativo\<close>.
  The roll width \<open>rollo\<close> is \<^verbatim>\<open>ancho_rollo_mm\<close> in the first loop and
  \<^verbatim>\<open>ROLLO_BASE_MM\<close> in the second.
\<close>

definition paso_cilindro ::
  "bool \<Rightarrow> real \<Rightarrow> real \<Rightarrow> int \<Rightarrow> real \<Rightarrow> int \<Rightarrow> busqueda \<Rightarrow> py_error + busqueda" where
  "paso_cilindro segundo alto_etq ancho_etq unidades rollo z st =
     (case evaluar_z_uniforme z alto_etq GAP_VERTICAL_OBJETIVO GAP_VERTICAL_MIN
             GAP_VERTICAL_MAX MAX_REPETICIONES_VERTICALES of
        Inl e \<Rightarrow> Inl e
      | Inr ev \<Rightarrow>
          if \<not> ev_valido ev
          then Inr (if \<not> segundo \<and> motivo_imposibilidad st = None
                    then st\<lparr>motivo_imposibilidad := Some (motivo_alto alto_etq)\<rparr>
                    else st)
          else
           (case evaluar_rollo_estandar rollo ancho_etq GAP_HORIZONTAL_OBJETIVO
                   BANDERA_HORIZONTAL of
              Inl e \<Rightarrow> Inl e
            | Inr ev_rollo \<Rightarrow>
                if etq_eje ev_rollo \<le> 0
                then Inr (if z_fallback st = None
                          then st\<lparr>z_fallback := Some z,
                                  motivo_imposibilidad :=
                                    Some (if segundo then motivo_ancho_330 ancho_etq
                                          else motivo_ancho ancho_etq rollo)\<rparr>
                          else st)
                else
                  let etq_repeat = ev_n ev * etq_eje ev_rollo in
                 (case calcular_metraje_material unidades etq_repeat (ev_desarrollo_mm ev)
                         rollo AJUSTE_DESARROLLO_REP_MM of
                    Inl e \<Rightarrow> Inl e
                  | Inr met \<Rightarrow>
                      if (case mejor st of None \<Rightarrow> True | Some m \<Rightarrow> ml met < sol_ml m)
                      then Inr (st\<lparr>mejor := Some
                             \<lparr>sol_z = z, sol_n = ev_n ev,
                              sol_desarrollo_mm = ev_desarrollo_mm ev,
                              sol_gap_vertical = ev_gap ev,
                              sol_etq_eje = etq_eje ev_rollo,
                              sol_gap_horizontal_real = gap_entre ev_rollo,
                              sol_etq_repeat = etq_repeat,
                              sol_repeticiones = repeticiones_reales met,
                              sol_ml = ml met, sol_m2 = m2 met,
                              sol_ancho_rollo_mm = rollo,
                              sol_rollo_alternativo = segundo\<rparr>\<rparr>)
                      else Inr st)))"

text \<open>\<^verbatim>\<open>for z in CILINDROS_FB\<close>, over the remaining cylinders.\<close>

fun bucle_cilindros ::
  "bool \<Rightarrow> real \<Rightarrow> real \<Rightarrow> int \<Rightarrow> real \<Rightarrow> int list \<Rightarrow> busqueda \<Rightarrow> py_error + busqueda" where
  "bucle_cilindros segundo alto_etq ancho_etq unidades rollo [] st = Inr st"
| "bucle_cilindros segundo alto_etq ancho_etq unidades rollo (z # zs) st =
     (case paso_cilindro segundo alto_etq ancho_etq unidades rollo z st of
        Inl e \<Rightarrow> Inl e
      | Inr st' \<Rightarrow> bucle_cilindros segundo alto_etq ancho_etq unidades rollo zs st')"

text \<open>
  Lines 411 to 421: the last return of the function, from the variables of the first
  loop. A message is truthy when it is a non-empty string.
\<close>

definition retorno_final :: "busqueda \<Rightarrow> real \<Rightarrow> resultado option" where
  "retorno_final st ancho_rollo_mm =
     (case z_fallback st of
        None \<Rightarrow> None
      | Some zf \<Rightarrow>
          (case motivo_imposibilidad st of
             None \<Rightarrow> None
           | Some m \<Rightarrow>
               if m = [] then None
               else Some (NoValido \<lparr>imp_z = zf, imp_ancho_rollo_mm = ancho_rollo_mm,
                                    imp_motivo_imposibilidad = Some m,
                                    imp_gap_horizontal_real = 0\<rparr>)))"

text \<open>
  The function. \<^verbatim>\<open>ancho_rollo_mm\<close> is optional (\<^verbatim>\<open>None\<close> by default); the result is
  a dict or \<^verbatim>\<open>None\<close>.
\<close>

definition obtener_z_sugerido ::
  "real \<Rightarrow> real \<Rightarrow> int \<Rightarrow> real option \<Rightarrow> py_error + resultado option" where
  "obtener_z_sugerido alto_etq ancho_etq unidades ancho_rollo_opt =
     (let ancho_rollo_mm = (case ancho_rollo_opt of None \<Rightarrow> ROLLO_BASE_MM | Some a \<Rightarrow> a) in
      case bucle_cilindros False alto_etq ancho_etq unidades ancho_rollo_mm CILINDROS_FB
             busqueda_inicial of
        Inl e \<Rightarrow> Inl e
      | Inr st1 \<Rightarrow>
          (case mejor st1 of
             Some m \<Rightarrow> Inr (Some (Valido m))
           | None \<Rightarrow>
               if ancho_rollo_mm \<noteq> ROLLO_BASE_MM
               then
                 (case bucle_cilindros True alto_etq ancho_etq unidades ROLLO_BASE_MM
                         CILINDROS_FB busqueda_inicial of
                    Inl e \<Rightarrow> Inl e
                  | Inr st2 \<Rightarrow>
                      (case mejor st2 of
                         Some m \<Rightarrow> Inr (Some (Valido m))
                       | None \<Rightarrow>
                           (case z_fallback st2 of
                              Some zf \<Rightarrow>
                                Inr (Some (NoValido
                                  \<lparr>imp_z = zf, imp_ancho_rollo_mm = ROLLO_BASE_MM,
                                   imp_motivo_imposibilidad = motivo_imposibilidad st2,
                                   imp_gap_horizontal_real = 0\<rparr>))
                            | None \<Rightarrow> Inr (retorno_final st1 ancho_rollo_mm))))
               else Inr (retorno_final st1 ancho_rollo_mm)))"

subsection \<open>calcular\_z\_y\_metraje (lines 1218 to 1338)\<close>

text \<open>
  \<^verbatim>\<open>round(x, k)\<close> on a float, read as the exact real: the nearest multiple of
  \<open>10^-k\<close>, a tie going to the even one.
\<close>

definition redondeo_par :: "real \<Rightarrow> int" where
  "redondeo_par y =
     (let f = \<lfloor>y\<rfloor>; r = y - of_int f
      in if r < 1 / 2 then f else if 1 / 2 < r then f + 1
         else if even f then f else f + 1)"

definition py_round :: "real \<Rightarrow> nat \<Rightarrow> real" where
  "py_round x k = of_int (redondeo_par (x * 10 ^ k)) / 10 ^ k"

text \<open>
  Line 1254: \<^verbatim>\<open>max(1, int(etiquetas_a_producir)) if etiquetas_a_producir > 0 else 1\<close>.
\<close>

definition unidades_para_calculo :: "real \<Rightarrow> int" where
  "unidades_para_calculo etiquetas_a_producir =
     (if etiquetas_a_producir > 0 then max 1 (py_int etiquetas_a_producir) else 1)"

text \<open>
  The returned \<^verbatim>\<open>pd.Series\<close>, its keys with the prefix \<open>f_\<close>; a value
  \<^verbatim>\<open>None\<close> is \<open>None\<close>.
\<close>

record fila =
  f_Z_Sugerido :: "int option"
  f_Desarrollo_mm :: "real option"
  f_gap_vertical :: "real option"
  f_Ancho_rollo_mm :: real
  f_n_vertical :: "int option"
  f_gap_horizontal_real :: "real option"
  f_etq_eje_horizontal :: "int option"
  f_Etiquetas_repeticion :: "int option"
  f_Repeticiones :: "real option"
  f_Merma_mm :: "real option"
  f_Merma_m :: "real option"
  f_ML_sin_merma :: "real option"
  f_M2_sin_merma :: "real option"
  f_motivo_imposibilidad :: "string option"

text \<open>The dict appended to the list \<^verbatim>\<open>imposibilidades_tecnicas\<close> (lines 1282 to 1290).\<close>

record imposibilidad_tecnica =
  it_Codigo :: string
  it_Componente :: string
  it_Alto_mm :: int
  it_Ancho_mm :: int
  it_Z_Asignado :: int
  it_Rollo_mm :: int
  it_Motivo :: "string option"

text \<open>
  The row of lines 1235 to 1250 and of lines 1261 to 1276: every value \<^verbatim>\<open>None\<close> but
  the roll width and the message.
\<close>

definition fila_sin_resultado :: "real \<Rightarrow> string \<Rightarrow> fila" where
  "fila_sin_resultado ancho_rollo motivo =
     \<lparr>f_Z_Sugerido = None, f_Desarrollo_mm = None, f_gap_vertical = None,
      f_Ancho_rollo_mm = ancho_rollo, f_n_vertical = None, f_gap_horizontal_real = None,
      f_etq_eje_horizontal = None, f_Etiquetas_repeticion = None, f_Repeticiones = None,
      f_Merma_mm = None, f_Merma_m = None, f_ML_sin_merma = None, f_M2_sin_merma = None,
      f_motivo_imposibilidad = Some motivo\<rparr>"

text \<open>The row of lines 1293 to 1308, for an impossibility.\<close>

definition fila_imposible :: "imposible \<Rightarrow> fila" where
  "fila_imposible i =
     \<lparr>f_Z_Sugerido = Some (imp_z i), f_Desarrollo_mm = None, f_gap_vertical = None,
      f_Ancho_rollo_mm = imp_ancho_rollo_mm i, f_n_vertical = None,
      f_gap_horizontal_real = Some 0,
      f_etq_eje_horizontal = None, f_Etiquetas_repeticion = None, f_Repeticiones = None,
      f_Merma_mm = None, f_Merma_m = None, f_ML_sin_merma = None, f_M2_sin_merma = None,
      f_motivo_imposibilidad = imp_motivo_imposibilidad i\<rparr>"

text \<open>The row of lines 1310 to 1338, for a solution.\<close>

definition fila_solucion :: "real \<Rightarrow> solucion \<Rightarrow> fila" where
  "fila_solucion ancho s =
     (let repeticiones = sol_repeticiones s;
          merma_total_mm = repeticiones * AJUSTE_DESARROLLO_REP_MM;
          etiquetas_por_rep = sol_n s * sol_etq_eje s;
          gap_h =
            (if sol_gap_horizontal_real s = None \<and> sol_etq_eje s = 1
             then Some (if sol_ancho_rollo_mm s > ancho
                        then (sol_ancho_rollo_mm s - ancho) / 2 else 0)
             else sol_gap_horizontal_real s)
      in \<lparr>f_Z_Sugerido = Some (sol_z s),
          f_Desarrollo_mm = Some (py_round (sol_desarrollo_mm s) 2),
          f_gap_vertical = Some (py_round (sol_gap_vertical s) 2),
          f_Ancho_rollo_mm = sol_ancho_rollo_mm s,
          f_n_vertical = Some (sol_n s),
          f_gap_horizontal_real = map_option (\<lambda>g. py_round g 2) gap_h,
          f_etq_eje_horizontal = Some (sol_etq_eje s),
          f_Etiquetas_repeticion = Some etiquetas_por_rep,
          f_Repeticiones = (if repeticiones \<noteq> 0 then Some (py_round repeticiones 2) else None),
          f_Merma_mm = Some (py_round merma_total_mm 2),
          f_Merma_m = Some (py_round (merma_total_mm / 1000) 4),
          f_ML_sin_merma = Some (py_round (sol_ml s) 2),
          f_M2_sin_merma = Some (py_round (sol_m2 s) 2),
          f_motivo_imposibilidad = Some []\<rparr>)"

text \<open>
  The closure, applied to one row: the label's height and width, the labels to produce,
  the component's name and the code are the values read from the row; the roll width
  that \<^verbatim>\<open>extraer_ancho_rollo_mm\<close> extracts from the component's name (or \<^verbatim>\<open>None\<close>) is
  a parameter; the list \<^verbatim>\<open>imposibilidades_tecnicas\<close> of the enclosing function is
  passed in and returned. \<^verbatim>\<open>not alto\<close> holds of the number 0.
\<close>

definition calcular_z_y_metraje ::
  "real \<Rightarrow> real \<Rightarrow> real \<Rightarrow> string \<Rightarrow> string \<Rightarrow> real option \<Rightarrow> imposibilidad_tecnica list
   \<Rightarrow> py_error + fila \<times> imposibilidad_tecnica list" where
  "calcular_z_y_metraje alto ancho etiquetas_a_producir nombre_componente codigo
       ancho_rollo_extraido imposibilidades_tecnicas =
     (let ancho_rollo = (case ancho_rollo_extraido of None \<Rightarrow> ROLLO_BASE_MM | Some a \<Rightarrow> a) in
      if alto = 0 \<or> ancho = 0
      then Inr (fila_sin_resultado ancho_rollo ''SIN MEDIDAS'', imposibilidades_tecnicas)
      else
        case obtener_z_sugerido alto ancho (unidades_para_calculo etiquetas_a_producir)
               (Some ancho_rollo) of
          Inl e \<Rightarrow> Inl e
        | Inr None \<Rightarrow>
            Inr (fila_sin_resultado ancho_rollo
                   (''IMPOSIBLE: Etiqueta '' @ str_int (py_int alto) @ ''x''
                      @ str_int (py_int ancho) @ ''mm no cabe en ningun rollo disponible''),
                 imposibilidades_tecnicas)
        | Inr (Some (NoValido i)) \<Rightarrow>
            Inr (fila_imposible i,
                 imposibilidades_tecnicas @
                   [\<lparr>it_Codigo = codigo, it_Componente = nombre_componente,
                     it_Alto_mm = py_int alto, it_Ancho_mm = py_int ancho,
                     it_Z_Asignado = imp_z i, it_Rollo_mm = py_int (imp_ancho_rollo_mm i),
                     it_Motivo = imp_motivo_imposibilidad i\<rparr>])
        | Inr (Some (Valido s)) \<Rightarrow> Inr (fila_solucion ancho s, imposibilidades_tecnicas))"

subsection \<open>The vertical fit as the specification words it\<close>

text \<open>
  The gap of a repeat count, \<open>(circumference - repeats * height) / repeats\<close>, and the
  feasible repeat counts of the specification: from 1 up to the bound, with
  \<open>repeats * height \<le> circumference\<close>, a gap that is not negative and, above one
  repeat, a gap within \<open>[gap_min, gap_max]\<close>.
\<close>

definition gap_uniforme :: "real \<Rightarrow> real \<Rightarrow> int \<Rightarrow> real" where
  "gap_uniforme circumference height repeats =
     (circumference - of_int repeats * height) / of_int repeats"

definition factible :: "real \<Rightarrow> real \<Rightarrow> real \<Rightarrow> real \<Rightarrow> int \<Rightarrow> int \<Rightarrow> bool" where
  "factible circumference height gap_min gap_max bound repeats \<longleftrightarrow>
     1 \<le> repeats \<and> repeats \<le> bound \<and> of_int repeats * height \<le> circumference \<and>
     0 \<le> gap_uniforme circumference height repeats \<and>
     (1 < repeats \<longrightarrow> gap_min \<le> gap_uniforme circumference height repeats \<and>
                       gap_uniforme circumference height repeats \<le> gap_max)"

text \<open>
  What the loop of the source does with one repeat count: line 177 reports, for one
  repeat, the gap raised to at least \<open>gap_min\<close>; lines 179 and 180 build the candidate
  triple; lines 163 to 173 accept a count that passes the \<^verbatim>\<open>break\<close> test and, above
  one repeat, the gap range.
\<close>

definition gap_informado :: "real \<Rightarrow> real \<Rightarrow> real \<Rightarrow> int \<Rightarrow> real" where
  "gap_informado circumference height gap_min repeats =
     (if repeats = 1 then max (gap_uniforme circumference height repeats) gap_min
      else gap_uniforme circumference height repeats)"

definition candidato :: "real \<Rightarrow> real \<Rightarrow> real \<Rightarrow> real \<Rightarrow> int \<Rightarrow> int \<times> real \<times> real" where
  "candidato d h gobj gmin k =
     (k, gap_informado d h gmin k, \<bar>gap_informado d h gmin k - gobj\<bar>)"

definition aceptado :: "real \<Rightarrow> real \<Rightarrow> real \<Rightarrow> real \<Rightarrow> int \<Rightarrow> bool" where
  "aceptado d h gmin gmax k \<longleftrightarrow>
     of_int k * h \<le> d \<and> (1 < k \<longrightarrow> gmin \<le> gap_uniforme d h k \<and> gap_uniforme d h k \<le> gmax)"

subsection \<open>Devices for statements about the search\<close>

text \<open>
  The dict that lines 338 to 351 (and 382 to 396) build from the evaluations of one
  cylinder.
\<close>

definition solucion_de ::
  "bool \<Rightarrow> int \<Rightarrow> EvaluacionZUniforme \<Rightarrow> rollo_eval \<Rightarrow> metraje \<Rightarrow> real \<Rightarrow> solucion" where
  "solucion_de seg z ev er met a =
     \<lparr>sol_z = z, sol_n = ev_n ev, sol_desarrollo_mm = ev_desarrollo_mm ev,
      sol_gap_vertical = ev_gap ev, sol_etq_eje = etq_eje er,
      sol_gap_horizontal_real = gap_entre er,
      sol_etq_repeat = ev_n ev * etq_eje er,
      sol_repeticiones = repeticiones_reales met,
      sol_ml = ml met, sol_m2 = m2 met,
      sol_ancho_rollo_mm = a, sol_rollo_alternativo = seg\<rparr>"

text \<open>
  A solution, a result and a search state with the three quantities that depend on the
  number of units doubled: revolutions, linear meters and area.
\<close>

definition duplicar_solucion :: "solucion \<Rightarrow> solucion" where
  "duplicar_solucion s =
     s\<lparr>sol_repeticiones := 2 * sol_repeticiones s, sol_ml := 2 * sol_ml s,
       sol_m2 := 2 * sol_m2 s\<rparr>"

definition duplicar_resultado :: "resultado option \<Rightarrow> resultado option" where
  "duplicar_resultado r =
     (case r of
        Some (Valido s) \<Rightarrow> Some (Valido (duplicar_solucion s))
      | Some (NoValido i) \<Rightarrow> Some (NoValido i)
      | None \<Rightarrow> None)"

definition duplicar_busqueda :: "busqueda \<Rightarrow> busqueda" where
  "duplicar_busqueda st = st\<lparr>mejor := map_option duplicar_solucion (mejor st)\<rparr>"

section \<open>Material usage\<close>

text \<open>
  Claim C7. For every quantity, labels per revolution, circumference and roll width, the
  material-usage calculator (with the trim allowance of 0.75 mm) returns
  revolutions = quantity / labels per revolution,
  linear meters = (revolutions * circumference + revolutions * 0.75) / 1000 and
  area = linear meters * (roll width / 1000), except that all three outputs are zero
  whenever labels per revolution, circumference or roll width is not positive. The
  calculator never raises.
\<close>

theorem C7_calcular_metraje_material:
  "calcular_metraje_material unidades etq_repeat desarrollo_mm ancho_rollo_mm AJUSTE_DESARROLLO_REP_MM =
     (if etq_repeat \<le> 0 \<or> desarrollo_mm \<le> 0 \<or> ancho_rollo_mm \<le> 0
      then Inr \<lparr>repeticiones_reales = 0, ml = 0, m2 = 0\<rparr>
      else Inr \<lparr>repeticiones_reales = of_int unidades / of_int etq_repeat,
                ml = (of_int unidades / of_int etq_repeat * desarrollo_mm
                      + of_int unidades / of_int etq_repeat * 0.75) / 1000,
                m2 = (of_int unidades / of_int etq_repeat * desarrollo_mm
                      + of_int unidades / of_int etq_repeat * 0.75) / 1000
                     * (ancho_rollo_mm / 1000)\<rparr>)"
  by (simp add: calcular_metraje_material_def py_truediv_def AJUSTE_DESARROLLO_REP_MM_def Let_def)

theorem C7_calcular_metraje_material_witness:
  "calcular_metraje_material 10000 30 308 330 AJUSTE_DESARROLLO_REP_MM =
     Inr \<lparr>repeticiones_reales = 1000 / 3, ml = 1235 / 12, m2 = 2717 / 80\<rparr>
   \<and> calcular_metraje_material 10000 0 308 330 AJUSTE_DESARROLLO_REP_MM =
     Inr \<lparr>repeticiones_reales = 0, ml = 0, m2 = 0\<rparr>"
  using C7_calcular_metraje_material [of 10000 30 308 330]
        C7_calcular_metraje_material [of 10000 0 308 330]
  by simp

section \<open>Horizontal fit\<close>

lemma py_int_of_int [simp]: "py_int (of_int k) = k"
  by (simp add: py_int_def)

lemma cuenta_eje_pos:
  assumes "0 < p" "\<And>x y. 0 < y \<Longrightarrow> fdiv x y = py_floordiv x y"
  shows "cuenta_eje fdiv u p = Inr (max 0 \<lfloor>u / p\<rfloor>)"
  using assms by (simp add: cuenta_eje_def py_floordiv_def)

lemma rollo_con_forma:
  assumes a: "0 < a" and p: "0 < w + g"
      and t: "\<And>x y. 0 < y \<Longrightarrow> tdiv x y = py_truediv x y"
      and f: "\<And>x y. 0 < y \<Longrightarrow> fdiv x y = py_floordiv x y"
  shows "evaluar_rollo_estandar_con tdiv fdiv a w g b =
     (let e0 = max 0 \<lfloor>max 0 (a - b) / (w + g)\<rfloor>;
          util = (if e0 \<le> 0 then a else max 0 (a - b));
          eje = (if e0 \<le> 0 then max 0 \<lfloor>a / (w + g)\<rfloor> else e0);
          forzado = (eje \<le> 0 \<and> w \<le> util);
          eje_final = (if forzado then 1 else eje)
      in Inr \<lparr>etq_eje = eje_final,
              gap_entre = (if forzado then Some (max 0 (util - w))
                           else if 1 < eje then Some (max 0 (util - of_int eje * w) / of_int (eje - 1))
                           else None),
              aprovechamiento_pct = of_int eje_final * w / util * 100,
              ancho_util = Some util\<rparr>)"
proof -
  define u0 where "u0 = max 0 (a - b)"
  define e0 where "e0 = max 0 \<lfloor>u0 / (w + g)\<rfloor>"
  define e1 where "e1 = max 0 \<lfloor>a / (w + g)\<rfloor>"
  define util where "util = (if e0 \<le> 0 then a else u0)"
  define eje where "eje = (if e0 \<le> 0 then e1 else e0)"
  have c0: "cuenta_eje fdiv u0 (w + g) = Inr e0"
    unfolding e0_def by (rule cuenta_eje_pos [OF p f])
  have c1: "cuenta_eje fdiv a (w + g) = Inr e1"
    unfolding e1_def by (rule cuenta_eje_pos [OF p f])
  have upos: "0 < util"
  proof (cases "e0 \<le> 0")
    case True then show ?thesis using a by (simp add: util_def)
  next
    case False
    then have "1 \<le> u0 / (w + g)" by (simp add: e0_def)
    then have "w + g \<le> u0" using p by (simp add: pos_le_divide_eq)
    then show ?thesis using p False by (simp add: util_def)
  qed
  have "evaluar_rollo_estandar_con tdiv fdiv a w g b =
     Inr \<lparr>etq_eje = (if eje \<le> 0 \<and> w \<le> util then 1 else eje),
              gap_entre = (if eje \<le> 0 \<and> w \<le> util then Some (max 0 (util - w))
                           else if 1 < eje then Some (max 0 (util - of_int eje * w) / of_int (eje - 1))
                           else None),
              aprovechamiento_pct = of_int (if eje \<le> 0 \<and> w \<le> util then 1 else eje) * w / util * 100,
              ancho_util = Some util\<rparr>"
  proof (cases "e0 \<le> 0")
    case True
    then have ue: "util = a" "eje = e1" by (simp_all add: util_def eje_def)
    show ?thesis
      unfolding evaluar_rollo_estandar_con_def Let_def u0_def [symmetric] ue
      using a p True by (simp add: c0 c1 t py_truediv_def)
  next
    case False
    then have ue: "util = u0" "eje = e0" by (simp_all add: util_def eje_def)
    show ?thesis
      unfolding evaluar_rollo_estandar_con_def Let_def u0_def [symmetric] ue
      using a p False upos [unfolded ue] by (simp add: c0 c1 t py_truediv_def)
  qed
  then show ?thesis
    unfolding Let_def util_def eje_def e0_def e1_def u0_def .
qed

lemma rollo_nulo_casos:
  "a \<le> 0 \<or> w + g \<le> 0 \<Longrightarrow> evaluar_rollo_estandar_con tdiv fdiv a w g b = Inr rollo_nulo"
  by (auto simp: evaluar_rollo_estandar_con_def Let_def)

lemma floor_mult_le:
  fixes u p :: real
  assumes "0 < p"
  shows "of_int \<lfloor>u / p\<rfloor> * p \<le> u"
proof -
  have "of_int \<lfloor>u / p\<rfloor> * p \<le> (u / p) * p"
    by (rule mult_right_mono) (use assms in simp_all)
  then show ?thesis using assms by simp
qed

lemma cuenta_por_ancho_le:
  fixes u w g :: real
  assumes g: "0 \<le> g" and p: "0 < w + g" and u: "0 \<le> u"
  shows "of_int (max 0 \<lfloor>u / (w + g)\<rfloor>) * w \<le> u"
proof (cases "0 \<le> w")
  case True
  have k: "0 \<le> \<lfloor>u / (w + g)\<rfloor>" using u p by simp
  have "of_int \<lfloor>u / (w + g)\<rfloor> * w \<le> of_int \<lfloor>u / (w + g)\<rfloor> * (w + g)"
    using k g by (intro mult_left_mono) simp_all
  also have "\<dots> \<le> u" by (rule floor_mult_le [OF p])
  finally show ?thesis using k by (simp add: max_def)
next
  case False
  then have "of_int (max 0 \<lfloor>u / (w + g)\<rfloor>) * w \<le> 0"
    by (intro mult_nonneg_nonpos) simp_all
  then show ?thesis using u by linarith
qed

text \<open>
  Claim C10. The horizontal-fit evaluator is total on degenerate inputs: for every roll
  width that is not positive, and for every label width and gap whose sum is not
  positive, it returns a count of 0 with no gap and a utilization of 0 instead of
  failing; on every input it returns a result; and its divisions are executed only
  with a positive divisor: replacing the division operators by any operators that agree
  with Python's on positive divisors (whatever they do on the others) leaves the result
  unchanged.
\<close>

theorem C10_total:
  "(ancho_mm \<le> 0 \<or> ancho_etq + gap_h_usado \<le> 0 \<longrightarrow>
      evaluar_rollo_estandar ancho_mm ancho_etq gap_h_usado bandera_mm =
        Inr \<lparr>etq_eje = 0, gap_entre = None, aprovechamiento_pct = 0, ancho_util = None\<rparr>)
   \<and> (\<exists>r. evaluar_rollo_estandar ancho_mm ancho_etq gap_h_usado bandera_mm = Inr r)
   \<and> ((\<forall>x y. 0 < y \<longrightarrow> tdiv x y = py_truediv x y) \<and>
       (\<forall>x y. 0 < y \<longrightarrow> fdiv x y = py_floordiv x y) \<longrightarrow>
      evaluar_rollo_estandar_con tdiv fdiv ancho_mm ancho_etq gap_h_usado bandera_mm =
        evaluar_rollo_estandar ancho_mm ancho_etq gap_h_usado bandera_mm)"
proof (cases "ancho_mm \<le> 0 \<or> ancho_etq + gap_h_usado \<le> 0")
  case True
  then show ?thesis
    by (simp add: evaluar_rollo_estandar_def rollo_nulo_casos rollo_nulo_def [symmetric])
next
  case False
  then have a: "0 < ancho_mm" and p: "0 < ancho_etq + gap_h_usado" by auto
  have 1: "\<exists>r. evaluar_rollo_estandar ancho_mm ancho_etq gap_h_usado bandera_mm = Inr r"
    unfolding evaluar_rollo_estandar_def
    by (subst rollo_con_forma [OF a p]) (simp_all add: Let_def)
  have 2: "evaluar_rollo_estandar_con tdiv fdiv ancho_mm ancho_etq gap_h_usado bandera_mm =
        evaluar_rollo_estandar ancho_mm ancho_etq gap_h_usado bandera_mm"
    if "\<forall>x y. 0 < y \<longrightarrow> tdiv x y = py_truediv x y" "\<forall>x y. 0 < y \<longrightarrow> fdiv x y = py_floordiv x y"
    unfolding evaluar_rollo_estandar_def
    using that by (simp add: rollo_con_forma [OF a p])
  show ?thesis using False 1 2 by blast
qed

theorem C10_total_witness:
  "evaluar_rollo_estandar 0 30 2.7 20 =
     Inr \<lparr>etq_eje = 0, gap_entre = None, aprovechamiento_pct = 0, ancho_util = None\<rparr>
   \<and> evaluar_rollo_estandar 330 (-3) 2.7 20 =
     Inr \<lparr>etq_eje = 0, gap_entre = None, aprovechamiento_pct = 0, ancho_util = None\<rparr>
   \<and> evaluar_rollo_estandar_con
        (\<lambda>x y. if 0 < y then py_truediv x y else Inl ZeroDivisionError)
        (\<lambda>x y. if 0 < y then py_floordiv x y else Inl ZeroDivisionError) 330 30 2.7 20 =
      evaluar_rollo_estandar 330 30 2.7 20"
  using C10_total [of 0 30 "2.7" 20]
        C10_total [of 330 "-3" "2.7" 20]
        C10_total [of 330 30 "2.7" 20
                      "\<lambda>x y. if 0 < y then py_truediv x y else Inl ZeroDivisionError"
                      "\<lambda>x y. if 0 < y then py_floordiv x y else Inl ZeroDivisionError"]
  by simp

text \<open>
  Claim C8. For every roll width, every label width and every gap (a spacing between
  labels, so not negative; both calls of the function pass the constant 2.7), the
  horizontal-fit result satisfies count * label width \<le> usable width, in the
  flag-margin case, the full-width retry case and the forced single-column case; a
  result without a usable width (the early returns for a roll width, or a label width
  plus gap, that is not positive) has a count of 0.
\<close>

theorem C8_cobertura:
  assumes g: "0 \<le> gap_h_usado"
  shows "\<exists>r. evaluar_rollo_estandar ancho_mm ancho_etq gap_h_usado bandera_mm = Inr r \<and>
             (case ancho_util r of
                None \<Rightarrow> etq_eje r = 0
              | Some u \<Rightarrow> of_int (etq_eje r) * ancho_etq \<le> u)"
proof (cases "ancho_mm \<le> 0 \<or> ancho_etq + gap_h_usado \<le> 0")
  case True
  then show ?thesis
    by (simp add: evaluar_rollo_estandar_def rollo_nulo_casos rollo_nulo_def)
next
  case False
  then have a: "0 < ancho_mm" and p: "0 < ancho_etq + gap_h_usado" by auto
  define u0 where "u0 = max 0 (ancho_mm - bandera_mm)"
  define k0 where "k0 = \<lfloor>u0 / (ancho_etq + gap_h_usado)\<rfloor>"
  define k1 where "k1 = \<lfloor>ancho_mm / (ancho_etq + gap_h_usado)\<rfloor>"
  have l0: "of_int (max 0 k0) * ancho_etq \<le> u0"
    unfolding k0_def by (rule cuenta_por_ancho_le [OF g p]) (simp add: u0_def)
  have l1: "of_int (max 0 k1) * ancho_etq \<le> ancho_mm"
    unfolding k1_def by (rule cuenta_por_ancho_le [OF g p]) (use a in simp)
  have "evaluar_rollo_estandar ancho_mm ancho_etq gap_h_usado bandera_mm =
     (let e0 = max 0 k0;
          util = (if e0 \<le> 0 then ancho_mm else u0);
          eje = (if e0 \<le> 0 then max 0 k1 else e0);
          forzado = (eje \<le> 0 \<and> ancho_etq \<le> util);
          eje_final = (if forzado then 1 else eje)
      in Inr \<lparr>etq_eje = eje_final,
              gap_entre = (if forzado then Some (max 0 (util - ancho_etq))
                           else if 1 < eje
                           then Some (max 0 (util - of_int eje * ancho_etq) / of_int (eje - 1))
                           else None),
              aprovechamiento_pct = of_int eje_final * ancho_etq / util * 100,
              ancho_util = Some util\<rparr>)"
    unfolding evaluar_rollo_estandar_def k0_def k1_def u0_def
    by (rule rollo_con_forma [OF a p]) simp_all
  then show ?thesis
    using l0 l1 by (auto simp: Let_def)
qed

theorem C8_cobertura_witness:
  "\<exists>r. evaluar_rollo_estandar 330 30 2.7 20 = Inr r \<and>
       (case ancho_util r of
          None \<Rightarrow> etq_eje r = 0
        | Some u \<Rightarrow> of_int (etq_eje r) * 30 \<le> u)"
  using C8_cobertura [of "2.7" 330 30 20] by simp

section \<open>Vertical fit\<close>

lemma gap_uniforme_nonneg:
  "1 \<le> k \<Longrightarrow> of_int k * h \<le> d \<Longrightarrow> 0 \<le> gap_uniforme d h k"
  by (simp add: gap_uniforme_def)

lemma corte_monotono:
  fixes d h :: real
  assumes dh: "h \<le> d" and k: "1 \<le> k" and cut: "d < of_int k * h" and kk: "k \<le> k'"
  shows "d < of_int k' * h"
proof -
  have hpos: "0 < h"
  proof (rule ccontr)
    assume "\<not> 0 < h"
    then have "h \<le> 0" by simp
    then have "of_int k * h \<le> 1 * h" using k by (intro mult_right_mono_neg) simp_all
    then show False using cut dh by simp
  qed
  have "of_int k * h \<le> of_int k' * h" using kk hpos by (intro mult_right_mono) simp_all
  then show ?thesis using cut by linarith
qed

lemma bucle_n_paso:
  assumes k: "1 \<le> k" and nocut: "\<not> d < of_int k * h"
  shows "bucle_n d h gobj gmin gmax (k # ks) mj =
     (if aceptado d h gmin gmax k
      then (case mj of
              None \<Rightarrow> bucle_n d h gobj gmin gmax ks (Some (candidato d h gobj gmin k))
            | Some (nb, gb, db) \<Rightarrow>
                if k > nb \<or> (k = nb \<and> (\<bar>gap_informado d h gmin k - gobj\<bar> < db \<or>
                     (\<bar>gap_informado d h gmin k - gobj\<bar> = db \<and> gap_informado d h gmin k < gb)))
                then bucle_n d h gobj gmin gmax ks (Some (candidato d h gobj gmin k))
                else bucle_n d h gobj gmin gmax ks mj)
      else bucle_n d h gobj gmin gmax ks mj)"
proof -
  have dv: "py_truediv (d - of_int k * h) (of_int k) = Inr (gap_uniforme d h k)"
    using k by (simp add: py_truediv_def gap_uniforme_def)
  have g0: "\<not> gap_uniforme d h k < 0"
    using gap_uniforme_nonneg [of k h d] k nocut by simp
  have ac: "aceptado d h gmin gmax k \<longleftrightarrow>
      \<not> (1 < k \<and> (gap_uniforme d h k < gmin \<or> gmax < gap_uniforme d h k))"
    using nocut by (auto simp: aceptado_def)
  show ?thesis
  proof (cases "aceptado d h gmin gmax k")
    case False
    then show ?thesis
      using nocut g0 ac by (simp add: dv)
  next
    case True
    then have r: "\<not> (1 < k \<and> (gap_uniforme d h k < gmin \<or> gmax < gap_uniforme d h k))"
      using ac by simp
    show ?thesis
    proof (cases mj)
      case None
      then show ?thesis
        using nocut g0 r True
        by (cases "1 < k") (simp_all add: dv Let_def candidato_def gap_informado_def)
    next
      case (Some t)
      obtain nb gb db where t: "t = (nb, gb, db)" by (cases t)
      show ?thesis
        using nocut g0 r True Some t
        by (cases "1 < k") (auto simp add: dv Let_def candidato_def gap_informado_def)
    qed
  qed
qed

lemma bucle_n_resultado:
  assumes "h \<le> d" and "sorted_wrt (<) ks" and "\<forall>k\<in>set ks. 1 \<le> k"
      and "\<forall>nb gb db. mj = Some (nb, gb, db) \<longrightarrow> (\<forall>k\<in>set ks. nb < k)"
  shows "\<exists>res. bucle_n d h gobj gmin gmax ks mj = Inr res \<and>
           ((res = mj \<and> (\<forall>k\<in>set ks. \<not> aceptado d h gmin gmax k)) \<or>
            (\<exists>k\<in>set ks. aceptado d h gmin gmax k \<and> res = Some (candidato d h gobj gmin k) \<and>
                (\<forall>k'\<in>set ks. aceptado d h gmin gmax k' \<longrightarrow> k' \<le> k)))"
  using assms
proof (induction ks arbitrary: mj)
  case Nil
  then show ?case by simp
next
  case (Cons k ks)
  have k1: "1 \<le> k" using Cons.prems(3) by simp
  have srt: "sorted_wrt (<) ks" and lt: "\<forall>k'\<in>set ks. k < k'" using Cons.prems(2) by auto
  have ge: "\<forall>k'\<in>set ks. 1 \<le> k'" using Cons.prems(3) by simp
  show ?case
  proof (cases "d < of_int k * h")
    case True
    have "\<not> aceptado d h gmin gmax k'" if "k' \<in> set (k # ks)" for k'
    proof -
      have "k \<le> k'" using that lt by auto
      then have "d < of_int k' * h" by (rule corte_monotono [OF Cons.prems(1) k1 True])
      then show ?thesis by (simp add: aceptado_def)
    qed
    then show ?thesis using True by simp
  next
    case False
    note paso = bucle_n_paso [OF k1 False, of gobj gmin gmax ks mj]
    show ?thesis
    proof (cases "aceptado d h gmin gmax k")
      case noac: False
      have pre: "\<forall>nb gb db. mj = Some (nb, gb, db) \<longrightarrow> (\<forall>k\<in>set ks. nb < k)"
        using Cons.prems(4) by simp
      have eq: "bucle_n d h gobj gmin gmax (k # ks) mj = bucle_n d h gobj gmin gmax ks mj"
        using paso noac by (simp del: bucle_n.simps)
      from Cons.IH [OF Cons.prems(1) srt ge pre] noac
      show ?thesis unfolding eq by (auto simp del: bucle_n.simps)
    next
      case ac: True
      define m' where "m' = Some (candidato d h gobj gmin k)"
      have nuevo: "bucle_n d h gobj gmin gmax (k # ks) mj = bucle_n d h gobj gmin gmax ks m'"
      proof (cases mj)
        case None
        then show ?thesis using paso ac by (simp add: m'_def del: bucle_n.simps)
      next
        case (Some t)
        obtain nb gb db where t: "t = (nb, gb, db)" by (cases t)
        have "nb < k" using Cons.prems(4) Some t by simp
        then show ?thesis using paso ac Some t by (simp add: m'_def del: bucle_n.simps)
      qed
      have pre: "\<forall>nb gb db. m' = Some (nb, gb, db) \<longrightarrow> (\<forall>k\<in>set ks. nb < k)"
        using lt by (simp add: m'_def candidato_def)
      from Cons.IH [OF Cons.prems(1) srt ge pre]
      obtain res where r: "bucle_n d h gobj gmin gmax ks m' = Inr res"
        and alt: "(res = m' \<and> (\<forall>k\<in>set ks. \<not> aceptado d h gmin gmax k)) \<or>
            (\<exists>k\<in>set ks. aceptado d h gmin gmax k \<and> res = Some (candidato d h gobj gmin k) \<and>
                (\<forall>k'\<in>set ks. aceptado d h gmin gmax k' \<longrightarrow> k' \<le> k))"
        by blast
      from alt show ?thesis
      proof
        assume a1: "res = m' \<and> (\<forall>k\<in>set ks. \<not> aceptado d h gmin gmax k)"
        then have "\<exists>j\<in>set (k # ks). aceptado d h gmin gmax j \<and>
              res = Some (candidato d h gobj gmin j) \<and>
              (\<forall>k'\<in>set (k # ks). aceptado d h gmin gmax k' \<longrightarrow> k' \<le> j)"
          using ac by (auto simp: m'_def simp del: bucle_n.simps)
        then show ?thesis unfolding nuevo r by (simp del: bucle_n.simps)
      next
        assume "\<exists>j\<in>set ks. aceptado d h gmin gmax j \<and> res = Some (candidato d h gobj gmin j) \<and>
                (\<forall>k'\<in>set ks. aceptado d h gmin gmax k' \<longrightarrow> k' \<le> j)"
        then obtain j where j: "j \<in> set ks" "aceptado d h gmin gmax j"
            "res = Some (candidato d h gobj gmin j)"
            "\<forall>k'\<in>set ks. aceptado d h gmin gmax k' \<longrightarrow> k' \<le> j" by blast
        have "k < j" using lt j(1) by simp
        then have "\<exists>j\<in>set (k # ks). aceptado d h gmin gmax j \<and>
              res = Some (candidato d h gobj gmin j) \<and>
              (\<forall>k'\<in>set (k # ks). aceptado d h gmin gmax k' \<longrightarrow> k' \<le> j)"
          using j by (intro bexI [of _ j]) auto
        then show ?thesis unfolding nuevo r by (simp del: bucle_n.simps)
      qed
    qed
  qed
qed

lemma factible_aceptado:
  "factible d h gmin gmax bound k \<longleftrightarrow> 1 \<le> k \<and> k \<le> bound \<and> aceptado d h gmin gmax k"
  using gap_uniforme_nonneg [of k h d] by (auto simp: factible_def aceptado_def)

lemma evaluar_z_menor:
  "of_int z * FACTOR_CILINDRO_A_MM < h \<Longrightarrow>
   evaluar_z_uniforme z h gobj gmin gmax bound =
     Inr \<lparr>ev_z = z, ev_desarrollo_mm = of_int z * FACTOR_CILINDRO_A_MM, ev_n = 0, ev_gap = 0,
          ev_diff_obj = 9999, ev_valido = False,
          ev_detalle = DesarrolloMenorQueAlto (of_int z * FACTOR_CILINDRO_A_MM) h\<rparr>"
  by (simp add: evaluar_z_uniforme_def Let_def)

lemma evaluar_z_forma:
  assumes dh: "h \<le> of_int z * FACTOR_CILINDRO_A_MM"
  shows "((\<forall>k. \<not> factible (of_int z * FACTOR_CILINDRO_A_MM) h gmin gmax bound k) \<and>
          evaluar_z_uniforme z h gobj gmin gmax bound =
            Inr \<lparr>ev_z = z, ev_desarrollo_mm = of_int z * FACTOR_CILINDRO_A_MM, ev_n = 0,
                 ev_gap = 0, ev_diff_obj = 9999, ev_valido = False,
                 ev_detalle = SinCombinacionValida\<rparr>) \<or>
         (\<exists>n. factible (of_int z * FACTOR_CILINDRO_A_MM) h gmin gmax bound n \<and>
              (\<forall>k. factible (of_int z * FACTOR_CILINDRO_A_MM) h gmin gmax bound k \<longrightarrow> k \<le> n) \<and>
              evaluar_z_uniforme z h gobj gmin gmax bound =
                Inr \<lparr>ev_z = z, ev_desarrollo_mm = of_int z * FACTOR_CILINDRO_A_MM, ev_n = n,
                     ev_gap = gap_informado (of_int z * FACTOR_CILINDRO_A_MM) h gmin n,
                     ev_diff_obj = \<bar>gap_informado (of_int z * FACTOR_CILINDRO_A_MM) h gmin n - gobj\<bar>,
                     ev_valido = True, ev_detalle = DetalleOK\<rparr>)"
proof -
  define d where "d = of_int z * FACTOR_CILINDRO_A_MM"
  have dh': "h \<le> d" using dh by (simp add: d_def)
  have nd: "\<not> d < h" using dh' by simp
  from bucle_n_resultado [OF dh', of "[1..bound]" None gobj gmin gmax]
  obtain res where r: "bucle_n d h gobj gmin gmax [1..bound] None = Inr res"
    and alt: "(res = None \<and> (\<forall>k\<in>set [1..bound]. \<not> aceptado d h gmin gmax k)) \<or>
            (\<exists>k\<in>set [1..bound]. aceptado d h gmin gmax k \<and> res = Some (candidato d h gobj gmin k) \<and>
                (\<forall>k'\<in>set [1..bound]. aceptado d h gmin gmax k' \<longrightarrow> k' \<le> k))"
    by auto
  from alt show ?thesis
  proof
    assume a: "res = None \<and> (\<forall>k\<in>set [1..bound]. \<not> aceptado d h gmin gmax k)"
    then have "\<forall>k. \<not> factible d h gmin gmax bound k"
      by (auto simp: factible_aceptado)
    moreover have "evaluar_z_uniforme z h gobj gmin gmax bound =
            Inr \<lparr>ev_z = z, ev_desarrollo_mm = d, ev_n = 0,
                 ev_gap = 0, ev_diff_obj = 9999, ev_valido = False,
                 ev_detalle = SinCombinacionValida\<rparr>"
      unfolding evaluar_z_uniforme_def d_def [symmetric] Let_def
      using nd a by (simp add: r)
    ultimately show ?thesis unfolding d_def by blast
  next
    assume "\<exists>k\<in>set [1..bound]. aceptado d h gmin gmax k \<and> res = Some (candidato d h gobj gmin k) \<and>
                (\<forall>k'\<in>set [1..bound]. aceptado d h gmin gmax k' \<longrightarrow> k' \<le> k)"
    then obtain n where n: "n \<in> set [1..bound]" "aceptado d h gmin gmax n"
       "res = Some (candidato d h gobj gmin n)"
       "\<forall>k'\<in>set [1..bound]. aceptado d h gmin gmax k' \<longrightarrow> k' \<le> n" by blast
    have f: "factible d h gmin gmax bound n" using n(1,2) by (simp add: factible_aceptado)
    have mx: "\<forall>k. factible d h gmin gmax bound k \<longrightarrow> k \<le> n"
      using n(4) by (auto simp: factible_aceptado)
    have "evaluar_z_uniforme z h gobj gmin gmax bound =
                Inr \<lparr>ev_z = z, ev_desarrollo_mm = d, ev_n = n,
                     ev_gap = gap_informado d h gmin n,
                     ev_diff_obj = \<bar>gap_informado d h gmin n - gobj\<bar>,
                     ev_valido = True, ev_detalle = DetalleOK\<rparr>"
      unfolding evaluar_z_uniforme_def d_def [symmetric] Let_def
      using nd by (simp add: r n(3) candidato_def)
    then show ?thesis using f mx unfolding d_def by blast
  qed
qed

lemma rango_repeticiones:
  "[1..MAX_REPETICIONES_VERTICALES] = [1, 2, 3, 4, 5, 6, 7, 8]"
  unfolding MAX_REPETICIONES_VERTICALES_def by code_simp

lemmas eval_z_simps = evaluar_z_uniforme_def rango_repeticiones FACTOR_CILINDRO_A_MM_def
  GAP_VERTICAL_OBJETIVO_def GAP_VERTICAL_MIN_def GAP_VERTICAL_MAX_def py_truediv_def Let_def

text \<open>
  Claim C2, amended. Whenever the vertical-fit evaluator reports a feasible result,
  the repeat count is at least 1; above one repeat,
  \<open>repeats * height + repeats * gap\<close> equals the circumference and the gap lies in
  \<open>[gap_min, gap_max]\<close>; with one repeat the reported gap is the larger of
  \<open>circumference - height\<close> and \<open>gap_min\<close>, so it is at least \<open>gap_min\<close>, and
  \<open>height + gap\<close> is at least the circumference, equal to it exactly when
  \<open>circumference - height\<close> is at least \<open>gap_min\<close>. The counterexample after the
  theorem is a feasible single repeat whose height plus gap exceeds the circumference
  by 1 mm.
\<close>

theorem C2_invariante:
  assumes e: "evaluar_z_uniforme z h gobj gmin gmax bound = Inr r" and v: "ev_valido r"
  shows "1 \<le> ev_n r \<and>
     (1 < ev_n r \<longrightarrow>
        of_int (ev_n r) * h + of_int (ev_n r) * ev_gap r = of_int z * FACTOR_CILINDRO_A_MM \<and>
        gmin \<le> ev_gap r \<and> ev_gap r \<le> gmax) \<and>
     (ev_n r = 1 \<longrightarrow>
        ev_gap r = max (of_int z * FACTOR_CILINDRO_A_MM - h) gmin \<and>
        gmin \<le> ev_gap r \<and>
        of_int z * FACTOR_CILINDRO_A_MM \<le> h + ev_gap r \<and>
        (h + ev_gap r = of_int z * FACTOR_CILINDRO_A_MM
           \<longleftrightarrow> gmin \<le> of_int z * FACTOR_CILINDRO_A_MM - h))"
proof -
  define d where "d = of_int z * FACTOR_CILINDRO_A_MM"
  have dh: "h \<le> d"
  proof (rule ccontr)
    assume "\<not> h \<le> d"
    then have "d < h" by simp
    from evaluar_z_menor [OF this [unfolded d_def], of gobj gmin gmax bound] e v
    show False by simp
  qed
  from evaluar_z_forma [OF dh [unfolded d_def], of gmin gmax bound gobj] e v
  obtain n where f: "factible d h gmin gmax bound n"
    and r: "r = \<lparr>ev_z = z, ev_desarrollo_mm = d, ev_n = n,
                     ev_gap = gap_informado d h gmin n,
                     ev_diff_obj = \<bar>gap_informado d h gmin n - gobj\<bar>,
                     ev_valido = True, ev_detalle = DetalleOK\<rparr>"
    unfolding d_def by auto
  have n1: "1 \<le> n" using f by (simp add: factible_def)
  have nn: "real_of_int n \<noteq> 0" using n1 by simp
  have eq: "of_int n * h + of_int n * gap_uniforme d h n = d"
    using nn by (simp add: gap_uniforme_def field_simps)
  have rng: "1 < n \<Longrightarrow> gmin \<le> gap_uniforme d h n \<and> gap_uniforme d h n \<le> gmax"
    using f by (simp add: factible_def)
  have g1: "gap_uniforme d h 1 = d - h" by (simp add: gap_uniforme_def)
  show ?thesis
    unfolding d_def [symmetric]
    using n1 eq rng g1 by (auto simp: r gap_informado_def)
qed

theorem C2_invariante_witness:
  "evaluar_z_uniforme 97 50 GAP_VERTICAL_OBJETIVO GAP_VERTICAL_MIN GAP_VERTICAL_MAX
      MAX_REPETICIONES_VERTICALES =
     Inr \<lparr>ev_z = 97, ev_desarrollo_mm = 12319 / 40, ev_n = 5, ev_gap = 2319 / 200,
          ev_diff_obj = 1779 / 200, ev_valido = True, ev_detalle = DetalleOK\<rparr>
   \<and> (5 :: real) * 50 + 5 * (2319 / 200) = 97 * FACTOR_CILINDRO_A_MM
   \<and> GAP_VERTICAL_MIN \<le> 2319 / 200 \<and> 2319 / 200 \<le> GAP_VERTICAL_MAX"
proof -
  have e: "evaluar_z_uniforme 97 50 GAP_VERTICAL_OBJETIVO GAP_VERTICAL_MIN GAP_VERTICAL_MAX
      MAX_REPETICIONES_VERTICALES =
     Inr \<lparr>ev_z = 97, ev_desarrollo_mm = 12319 / 40, ev_n = 5, ev_gap = 2319 / 200,
          ev_diff_obj = 1779 / 200, ev_valido = True, ev_detalle = DetalleOK\<rparr>"
    by (simp add: eval_z_simps)
  from C2_invariante [OF e] e show ?thesis by simp
qed

theorem C2_counterexample:
  "evaluar_z_uniforme 60 189 GAP_VERTICAL_OBJETIVO GAP_VERTICAL_MIN GAP_VERTICAL_MAX
      MAX_REPETICIONES_VERTICALES =
     Inr \<lparr>ev_z = 60, ev_desarrollo_mm = 190.5, ev_n = 1, ev_gap = 2.5, ev_diff_obj = 0.2,
          ev_valido = True, ev_detalle = DetalleOK\<rparr>
   \<and> (1 :: real) * 189 + 1 * 2.5 = 60 * FACTOR_CILINDRO_A_MM + 1"
  by (simp add: eval_z_simps)

section \<open>Cylinder selection\<close>

lemma evaluar_rollo_total:
  "\<exists>r. evaluar_rollo_estandar a w g b = Inr r"
proof (cases "a \<le> 0 \<or> w + g \<le> 0")
  case True
  then show ?thesis by (simp add: evaluar_rollo_estandar_def rollo_nulo_casos)
next
  case False
  then have a: "0 < a" and p: "0 < w + g" by auto
  show ?thesis
    unfolding evaluar_rollo_estandar_def
    by (subst rollo_con_forma [OF a p]) (simp_all add: Let_def)
qed

lemma evaluar_rollo_positivo:
  assumes "evaluar_rollo_estandar a w g b = Inr r" and "0 < etq_eje r"
  shows "0 < a"
proof (rule ccontr)
  assume "\<not> 0 < a"
  then have "evaluar_rollo_estandar a w g b = Inr rollo_nulo"
    by (simp add: evaluar_rollo_estandar_def rollo_nulo_casos)
  then show False using assms by (simp add: rollo_nulo_def)
qed

lemma factible_uno:
  "h \<le> d \<Longrightarrow> factible d h GAP_VERTICAL_MIN GAP_VERTICAL_MAX MAX_REPETICIONES_VERTICALES 1"
  by (simp add: factible_def gap_uniforme_def MAX_REPETICIONES_VERTICALES_def)

lemma evaluar_z_constantes:
  "\<exists>ev. evaluar_z_uniforme z h GAP_VERTICAL_OBJETIVO GAP_VERTICAL_MIN GAP_VERTICAL_MAX
          MAX_REPETICIONES_VERTICALES = Inr ev \<and>
        (ev_valido ev \<longleftrightarrow> h \<le> of_int z * FACTOR_CILINDRO_A_MM) \<and>
        (ev_valido ev \<longrightarrow> 1 \<le> ev_n ev) \<and>
        ev_desarrollo_mm ev = of_int z * FACTOR_CILINDRO_A_MM"
proof (cases "of_int z * FACTOR_CILINDRO_A_MM < h")
  case True
  then show ?thesis
    using evaluar_z_menor [OF True] by simp
next
  case False
  then have dh: "h \<le> of_int z * FACTOR_CILINDRO_A_MM" by simp
  from evaluar_z_forma [OF dh, of GAP_VERTICAL_MIN GAP_VERTICAL_MAX
      MAX_REPETICIONES_VERTICALES GAP_VERTICAL_OBJETIVO] factible_uno [OF dh]
  obtain n where "factible (of_int z * FACTOR_CILINDRO_A_MM) h GAP_VERTICAL_MIN
        GAP_VERTICAL_MAX MAX_REPETICIONES_VERTICALES n"
     and "evaluar_z_uniforme z h GAP_VERTICAL_OBJETIVO GAP_VERTICAL_MIN GAP_VERTICAL_MAX
          MAX_REPETICIONES_VERTICALES =
                Inr \<lparr>ev_z = z, ev_desarrollo_mm = of_int z * FACTOR_CILINDRO_A_MM, ev_n = n,
                     ev_gap = gap_informado (of_int z * FACTOR_CILINDRO_A_MM) h GAP_VERTICAL_MIN n,
                     ev_diff_obj = \<bar>gap_informado (of_int z * FACTOR_CILINDRO_A_MM) h GAP_VERTICAL_MIN n
                                    - GAP_VERTICAL_OBJETIVO\<bar>,
                     ev_valido = True, ev_detalle = DetalleOK\<rparr>"
    by blast
  then show ?thesis using dh by (simp add: factible_def)
qed

lemma metraje_forma:
  "calcular_metraje_material q e d a aj =
     Inr (if e \<le> 0 \<or> d \<le> 0 \<or> a \<le> 0
          then \<lparr>repeticiones_reales = 0, ml = 0, m2 = 0\<rparr>
          else \<lparr>repeticiones_reales = of_int q / of_int e,
                ml = (of_int q / of_int e * d + of_int q / of_int e * aj) / 1000,
                m2 = (of_int q / of_int e * d + of_int q / of_int e * aj) / 1000 * (a / 1000)\<rparr>)"
  by (simp add: calcular_metraje_material_def py_truediv_def Let_def)

lemma paso_cilindro_casos:
  obtains
    (invalido) "of_int z * FACTOR_CILINDRO_A_MM < h"
      "paso_cilindro seg h w q a z st =
         Inr (if \<not> seg \<and> motivo_imposibilidad st = None
              then st\<lparr>motivo_imposibilidad := Some (motivo_alto h)\<rparr> else st)"
  | (no_cabe) er where "h \<le> of_int z * FACTOR_CILINDRO_A_MM"
      "evaluar_rollo_estandar a w GAP_HORIZONTAL_OBJETIVO BANDERA_HORIZONTAL = Inr er"
      "etq_eje er \<le> 0"
      "paso_cilindro seg h w q a z st =
         Inr (if z_fallback st = None
              then st\<lparr>z_fallback := Some z,
                      motivo_imposibilidad :=
                        Some (if seg then motivo_ancho_330 w else motivo_ancho w a)\<rparr>
              else st)"
  | (cabe) ev er met where "h \<le> of_int z * FACTOR_CILINDRO_A_MM"
      "evaluar_z_uniforme z h GAP_VERTICAL_OBJETIVO GAP_VERTICAL_MIN GAP_VERTICAL_MAX
          MAX_REPETICIONES_VERTICALES = Inr ev"
      "ev_valido ev" "1 \<le> ev_n ev" "ev_desarrollo_mm ev = of_int z * FACTOR_CILINDRO_A_MM"
      "evaluar_rollo_estandar a w GAP_HORIZONTAL_OBJETIVO BANDERA_HORIZONTAL = Inr er"
      "0 < etq_eje er"
      "calcular_metraje_material q (ev_n ev * etq_eje er) (ev_desarrollo_mm ev) a
                  AJUSTE_DESARROLLO_REP_MM = Inr met"
      "paso_cilindro seg h w q a z st =
           Inr (if (case mejor st of None \<Rightarrow> True | Some m \<Rightarrow> ml met < sol_ml m)
                then st\<lparr>mejor := Some (solucion_de seg z ev er met a)\<rparr> else st)"
proof -
  obtain ev where ev: "evaluar_z_uniforme z h GAP_VERTICAL_OBJETIVO GAP_VERTICAL_MIN
          GAP_VERTICAL_MAX MAX_REPETICIONES_VERTICALES = Inr ev"
      and v: "ev_valido ev \<longleftrightarrow> h \<le> of_int z * FACTOR_CILINDRO_A_MM"
      and n: "ev_valido ev \<longrightarrow> 1 \<le> ev_n ev"
      and d: "ev_desarrollo_mm ev = of_int z * FACTOR_CILINDRO_A_MM"
    using evaluar_z_constantes [of z h] by blast
  obtain er where er: "evaluar_rollo_estandar a w GAP_HORIZONTAL_OBJETIVO BANDERA_HORIZONTAL = Inr er"
    using evaluar_rollo_total by blast
  show thesis
  proof (cases "ev_valido ev")
    case False
    then have "of_int z * FACTOR_CILINDRO_A_MM < h" using v by simp
    moreover have "paso_cilindro seg h w q a z st =
         Inr (if \<not> seg \<and> motivo_imposibilidad st = None
              then st\<lparr>motivo_imposibilidad := Some (motivo_alto h)\<rparr> else st)"
      using False by (simp add: paso_cilindro_def ev)
    ultimately show thesis by (rule invalido)
  next
    case True
    then have hz: "h \<le> of_int z * FACTOR_CILINDRO_A_MM" using v by simp
    show thesis
    proof (cases "etq_eje er \<le> 0")
      case c: True
      have "paso_cilindro seg h w q a z st =
         Inr (if z_fallback st = None
              then st\<lparr>z_fallback := Some z,
                      motivo_imposibilidad :=
                        Some (if seg then motivo_ancho_330 w else motivo_ancho w a)\<rparr>
              else st)"
        using True c by (simp add: paso_cilindro_def ev er)
      with hz er c show thesis by (rule no_cabe)
    next
      case c: False
      then have pos: "0 < etq_eje er" by simp
      have n1: "1 \<le> ev_n ev" using n True by simp
      obtain met where met: "calcular_metraje_material q (ev_n ev * etq_eje er)
            (ev_desarrollo_mm ev) a AJUSTE_DESARROLLO_REP_MM = Inr met"
        using metraje_forma by blast
      have "paso_cilindro seg h w q a z st =
           Inr (if (case mejor st of None \<Rightarrow> True | Some m \<Rightarrow> ml met < sol_ml m)
                then st\<lparr>mejor := Some (solucion_de seg z ev er met a)\<rparr> else st)"
        using True c by (simp add: paso_cilindro_def ev er met Let_def solucion_de_def)
      then show thesis by (rule cabe [OF hz ev True n1 d er pos met])
    qed
  qed
qed

lemma catalogo: "CILINDROS_FB = [168, 129, 127, 122, 117, 116, 111, 108, 107, 105, 102, 99, 97,
    91, 88, 84, 80, 77, 74, 70, 67, 60]"
  unfolding CILINDROS_FB_def by code_simp

lemma catalogo_cotas: "z \<in> set CILINDROS_FB \<Longrightarrow> 0 < z \<and> z \<le> 168"
  unfolding catalogo by auto

lemma catalogo_168: "168 \<in> set CILINDROS_FB"
  unfolding catalogo by simp

lemma paso_total: "\<exists>s'. paso_cilindro seg h w q a z s = Inr s'"
  by (cases rule: paso_cilindro_casos [of z h seg w q a s]) blast+

lemma bucle_preserva:
  assumes "I st"
      and "\<And>z s s'. z \<in> set zs \<Longrightarrow> I s \<Longrightarrow> paso_cilindro seg h w q a z s = Inr s' \<Longrightarrow> I s'"
  shows "\<exists>st'. bucle_cilindros seg h w q a zs st = Inr st' \<and> I st'"
  using assms
proof (induction zs arbitrary: st)
  case Nil
  then show ?case by simp
next
  case (Cons z zs)
  obtain s1 where s1: "paso_cilindro seg h w q a z st = Inr s1"
    using paso_total by blast
  have i1: "I s1" using Cons.prems(2) [of z st s1] Cons.prems(1) s1 by simp
  have "\<exists>st'. bucle_cilindros seg h w q a zs s1 = Inr st' \<and> I st'"
    by (rule Cons.IH [OF i1]) (use Cons.prems(2) in auto)
  then show ?case by (simp add: s1)
qed

lemma motivo_no_vacio:
  "motivo_ancho w a \<noteq> []" "motivo_ancho_330 w \<noteq> []" "motivo_alto h \<noteq> []"
  by (simp_all add: motivo_ancho_def motivo_ancho_330_def motivo_alto_def)

text \<open>Invariants of one iteration.\<close>

lemma paso_motivo:
  assumes "z_fallback s \<noteq> None \<longrightarrow> (\<exists>m. motivo_imposibilidad s = Some m \<and> m \<noteq> [])"
      and "paso_cilindro seg h w q a z s = Inr s'"
  shows "z_fallback s' \<noteq> None \<longrightarrow> (\<exists>m. motivo_imposibilidad s' = Some m \<and> m \<noteq> [])"
  using assms
  by (cases rule: paso_cilindro_casos [of z h seg w q a s])
     (auto simp: motivo_no_vacio split: if_splits)

lemma paso_monotono:
  assumes "paso_cilindro seg h w q a z s = Inr s'"
  shows "(mejor s \<noteq> None \<longrightarrow> mejor s' \<noteq> None) \<and> (z_fallback s \<noteq> None \<longrightarrow> z_fallback s' \<noteq> None)"
  using assms
  by (cases rule: paso_cilindro_casos [of z h seg w q a s])
     (auto split: if_splits)

lemma paso_avanza:
  assumes "paso_cilindro seg h w q a z s = Inr s'" and "h \<le> of_int z * FACTOR_CILINDRO_A_MM"
  shows "mejor s' \<noteq> None \<or> z_fallback s' \<noteq> None"
  using assms
  by (cases rule: paso_cilindro_casos [of z h seg w q a s])
     (auto split: if_splits option.splits)

lemma paso_marca:
  assumes "\<forall>m. mejor s = Some m \<longrightarrow> sol_rollo_alternativo m = seg \<and> sol_ancho_rollo_mm m = a"
      and "paso_cilindro seg h w q a z s = Inr s'"
  shows "\<forall>m. mejor s' = Some m \<longrightarrow> sol_rollo_alternativo m = seg \<and> sol_ancho_rollo_mm m = a"
  using assms
  by (cases rule: paso_cilindro_casos [of z h seg w q a s])
     (auto simp: solucion_de_def split: if_splits)

lemma paso_sin_ancho:
  assumes "evaluar_rollo_estandar a w GAP_HORIZONTAL_OBJETIVO BANDERA_HORIZONTAL = Inr er"
      and "etq_eje er \<le> 0" and "paso_cilindro seg h w q a z s = Inr s'"
  shows "mejor s' = mejor s"
  using assms
  by (cases rule: paso_cilindro_casos [of z h seg w q a s])
     (auto split: if_splits)

lemma paso_con_ancho:
  assumes "evaluar_rollo_estandar a w GAP_HORIZONTAL_OBJETIVO BANDERA_HORIZONTAL = Inr er"
      and "0 < etq_eje er" and "paso_cilindro seg h w q a z s = Inr s'"
  shows "z_fallback s' = z_fallback s \<and>
         (h \<le> of_int z * FACTOR_CILINDRO_A_MM \<longrightarrow> mejor s \<noteq> None \<or> mejor s' \<noteq> None)"
  using assms
  by (cases rule: paso_cilindro_casos [of z h seg w q a s])
     (auto split: if_splits option.splits)

lemma paso_sin_alto:
  assumes "of_int z * FACTOR_CILINDRO_A_MM < h" and "paso_cilindro seg h w q a z s = Inr s'"
  shows "mejor s' = mejor s \<and> z_fallback s' = z_fallback s"
  using assms
  by (cases rule: paso_cilindro_casos [of z h seg w q a s])
     (auto split: if_splits)

lemma bucle_total: "\<exists>st'. bucle_cilindros seg h w q a zs st = Inr st'"
proof -
  have "\<exists>st'. bucle_cilindros seg h w q a zs st = Inr st' \<and> True"
    by (rule bucle_preserva [where I = "\<lambda>_. True"]) simp_all
  then show ?thesis by simp
qed

lemma bucle_invariante:
  assumes b: "bucle_cilindros seg h w q a zs st = Inr st'" and i: "I st"
      and p: "\<And>z s s'. z \<in> set zs \<Longrightarrow> I s \<Longrightarrow> paso_cilindro seg h w q a z s = Inr s' \<Longrightarrow> I s'"
  shows "I st'"
proof -
  have "\<exists>s2. bucle_cilindros seg h w q a zs st = Inr s2 \<and> I s2"
    using i p by (rule bucle_preserva)
  then obtain s2 where "bucle_cilindros seg h w q a zs st = Inr s2" and "I s2" by blast
  then show ?thesis using b by simp
qed

lemma bucle_motivo:
  assumes i: "z_fallback st \<noteq> None \<longrightarrow> (\<exists>m. motivo_imposibilidad st = Some m \<and> m \<noteq> [])"
      and b: "bucle_cilindros seg h w q a zs st = Inr st'"
  shows "z_fallback st' \<noteq> None \<longrightarrow> (\<exists>m. motivo_imposibilidad st' = Some m \<and> m \<noteq> [])"
  using b i
proof (rule bucle_invariante)
  fix z s s'
  assume "z_fallback s \<noteq> None \<longrightarrow> (\<exists>m. motivo_imposibilidad s = Some m \<and> m \<noteq> [])"
    and "paso_cilindro seg h w q a z s = Inr s'"
  then show "z_fallback s' \<noteq> None \<longrightarrow> (\<exists>m. motivo_imposibilidad s' = Some m \<and> m \<noteq> [])"
    by (rule paso_motivo)
qed

lemma bucle_marca:
  assumes i: "\<forall>m. mejor st = Some m \<longrightarrow> sol_rollo_alternativo m = seg \<and> sol_ancho_rollo_mm m = a"
      and b: "bucle_cilindros seg h w q a zs st = Inr st'"
  shows "\<forall>m. mejor st' = Some m \<longrightarrow> sol_rollo_alternativo m = seg \<and> sol_ancho_rollo_mm m = a"
  using b i
proof (rule bucle_invariante)
  fix z s s'
  assume "\<forall>m. mejor s = Some m \<longrightarrow> sol_rollo_alternativo m = seg \<and> sol_ancho_rollo_mm m = a"
    and "paso_cilindro seg h w q a z s = Inr s'"
  then show "\<forall>m. mejor s' = Some m \<longrightarrow> sol_rollo_alternativo m = seg \<and> sol_ancho_rollo_mm m = a"
    by (rule paso_marca)
qed

lemma bucle_hay_algo:
  assumes i: "mejor st \<noteq> None \<or> z_fallback st \<noteq> None"
      and b: "bucle_cilindros seg h w q a zs st = Inr st'"
  shows "mejor st' \<noteq> None \<or> z_fallback st' \<noteq> None"
  using b i
proof (rule bucle_invariante)
  fix z s s'
  assume s: "mejor s \<noteq> None \<or> z_fallback s \<noteq> None"
    and p: "paso_cilindro seg h w q a z s = Inr s'"
  from paso_monotono [OF p] s
  show "mejor s' \<noteq> None \<or> z_fallback s' \<noteq> None" by blast
qed

lemma bucle_avanza:
  assumes "\<exists>z\<in>set zs. h \<le> of_int z * FACTOR_CILINDRO_A_MM"
      and "bucle_cilindros seg h w q a zs st = Inr st'"
  shows "mejor st' \<noteq> None \<or> z_fallback st' \<noteq> None"
  using assms
proof (induction zs arbitrary: st)
  case Nil
  then show ?case by simp
next
  case (Cons z zs)
  obtain s1 where s1: "paso_cilindro seg h w q a z st = Inr s1"
    using paso_total by blast
  have rest: "bucle_cilindros seg h w q a zs s1 = Inr st'"
    using Cons.prems(2) by (simp add: s1)
  show ?case
  proof (cases "h \<le> of_int z * FACTOR_CILINDRO_A_MM")
    case True
    from paso_avanza [OF s1 True] rest show ?thesis by (rule bucle_hay_algo)
  next
    case False
    then have "\<exists>z\<in>set zs. h \<le> of_int z * FACTOR_CILINDRO_A_MM"
      using Cons.prems(1) by simp
    then show ?thesis using rest by (rule Cons.IH)
  qed
qed

lemma bucle_sin_ancho:
  assumes er: "evaluar_rollo_estandar a w GAP_HORIZONTAL_OBJETIVO BANDERA_HORIZONTAL = Inr er"
      and e0: "etq_eje er \<le> 0" and b: "bucle_cilindros seg h w q a zs st = Inr st'"
  shows "mejor st' = mejor st"
  using b refl [of "mejor st"]
proof (rule bucle_invariante [where I = "\<lambda>s. mejor s = mejor st"])
  fix z s s'
  assume s: "mejor s = mejor st" and p: "paso_cilindro seg h w q a z s = Inr s'"
  from paso_sin_ancho [OF er e0 p] s show "mejor s' = mejor st" by simp
qed

lemma bucle_con_ancho:
  assumes er: "evaluar_rollo_estandar a w GAP_HORIZONTAL_OBJETIVO BANDERA_HORIZONTAL = Inr er"
      and e0: "0 < etq_eje er" and b: "bucle_cilindros seg h w q a zs st = Inr st'"
  shows "z_fallback st' = z_fallback st"
  using b refl [of "z_fallback st"]
proof (rule bucle_invariante [where I = "\<lambda>s. z_fallback s = z_fallback st"])
  fix z s s'
  assume s: "z_fallback s = z_fallback st" and p: "paso_cilindro seg h w q a z s = Inr s'"
  from paso_con_ancho [OF er e0 p] s show "z_fallback s' = z_fallback st" by simp
qed

lemma bucle_sin_alto:
  assumes al: "\<forall>z\<in>set zs. of_int z * FACTOR_CILINDRO_A_MM < h"
      and b: "bucle_cilindros seg h w q a zs st = Inr st'"
  shows "mejor st' = mejor st \<and> z_fallback st' = z_fallback st"
proof -
  have i: "mejor st = mejor st \<and> z_fallback st = z_fallback st" by simp
  from b i show ?thesis
  proof (rule bucle_invariante [where I = "\<lambda>s. mejor s = mejor st \<and> z_fallback s = z_fallback st"])
    fix z s s'
    assume z: "z \<in> set zs" and s: "mejor s = mejor st \<and> z_fallback s = z_fallback st"
      and p: "paso_cilindro seg h w q a z s = Inr s'"
    have "of_int z * FACTOR_CILINDRO_A_MM < h" using al z by simp
    from paso_sin_alto [OF this p] s
    show "mejor s' = mejor st \<and> z_fallback s' = z_fallback st" by simp
  qed
qed

lemma inicial_simps [simp]:
  "mejor busqueda_inicial = None" "z_fallback busqueda_inicial = None"
  "motivo_imposibilidad busqueda_inicial = None"
  by (simp_all add: busqueda_inicial_def)

lemma obtener_forma:
  assumes b1: "bucle_cilindros False h w q (case r of None \<Rightarrow> ROLLO_BASE_MM | Some x \<Rightarrow> x)
                 CILINDROS_FB busqueda_inicial = Inr st1"
      and b2: "bucle_cilindros True h w q ROLLO_BASE_MM CILINDROS_FB busqueda_inicial = Inr st2"
  shows "obtener_z_sugerido h w q r =
     Inr (case mejor st1 of
            Some m \<Rightarrow> Some (Valido m)
          | None \<Rightarrow>
              if (case r of None \<Rightarrow> ROLLO_BASE_MM | Some x \<Rightarrow> x) \<noteq> ROLLO_BASE_MM
              then (case mejor st2 of
                      Some m \<Rightarrow> Some (Valido m)
                    | None \<Rightarrow>
                        (case z_fallback st2 of
                           Some zf \<Rightarrow> Some (NoValido
                                  \<lparr>imp_z = zf, imp_ancho_rollo_mm = ROLLO_BASE_MM,
                                   imp_motivo_imposibilidad = motivo_imposibilidad st2,
                                   imp_gap_horizontal_real = 0\<rparr>)
                         | None \<Rightarrow> retorno_final st1 (case r of None \<Rightarrow> ROLLO_BASE_MM | Some x \<Rightarrow> x)))
              else retorno_final st1 (case r of None \<Rightarrow> ROLLO_BASE_MM | Some x \<Rightarrow> x))"
  unfolding obtener_z_sugerido_def Let_def b1 b2
  by (simp split: option.splits)

lemma obtener_casos:
  obtains st1 st2 where
    "bucle_cilindros False h w q (case r of None \<Rightarrow> ROLLO_BASE_MM | Some x \<Rightarrow> x)
                 CILINDROS_FB busqueda_inicial = Inr st1"
    "bucle_cilindros True h w q ROLLO_BASE_MM CILINDROS_FB busqueda_inicial = Inr st2"
proof -
  obtain st1 where 1: "bucle_cilindros False h w q (case r of None \<Rightarrow> ROLLO_BASE_MM | Some x \<Rightarrow> x)
                 CILINDROS_FB busqueda_inicial = Inr st1"
    using bucle_total by blast
  obtain st2 where 2: "bucle_cilindros True h w q ROLLO_BASE_MM CILINDROS_FB busqueda_inicial = Inr st2"
    using bucle_total by blast
  from 1 2 show thesis by (rule that)
qed

lemma retorno_final_motivo:
  assumes "z_fallback st = Some zf" and "motivo_imposibilidad st = Some m" and "m \<noteq> []"
  shows "retorno_final st a = Some (NoValido \<lparr>imp_z = zf, imp_ancho_rollo_mm = a,
           imp_motivo_imposibilidad = Some m, imp_gap_horizontal_real = 0\<rparr>)"
  using assms by (simp add: retorno_final_def)

text \<open>
  Where the label height does not exceed the circumference of some cylinder of the
  catalog, the selector returns a solution or an impossibility with a non-empty reason
  string, and it never raises.
\<close>

lemma obtener_con_cilindro:
  "\<exists>res. obtener_z_sugerido h w q r = Inr res \<and>
     ((\<exists>z\<in>set CILINDROS_FB. h \<le> of_int z * FACTOR_CILINDRO_A_MM) \<longrightarrow>
        (\<exists>s. res = Some (Valido s)) \<or>
        (\<exists>i m. res = Some (NoValido i) \<and> imp_motivo_imposibilidad i = Some m \<and> m \<noteq> []))"
proof -
  define a where "a = (case r of None \<Rightarrow> ROLLO_BASE_MM | Some x \<Rightarrow> x)"
  obtain st1 st2 where
    b1: "bucle_cilindros False h w q a CILINDROS_FB busqueda_inicial = Inr st1" and
    b2: "bucle_cilindros True h w q ROLLO_BASE_MM CILINDROS_FB busqueda_inicial = Inr st2"
    unfolding a_def by (rule obtener_casos)
  note forma = obtener_forma [OF b1 [unfolded a_def] b2, folded a_def]
  have i1: "z_fallback st1 \<noteq> None \<longrightarrow> (\<exists>m. motivo_imposibilidad st1 = Some m \<and> m \<noteq> [])"
    by (rule bucle_motivo [OF _ b1]) simp
  have i2: "z_fallback st2 \<noteq> None \<longrightarrow> (\<exists>m. motivo_imposibilidad st2 = Some m \<and> m \<noteq> [])"
    by (rule bucle_motivo [OF _ b2]) simp
  have "(\<exists>s. res = Some (Valido s)) \<or>
        (\<exists>i m. res = Some (NoValido i) \<and> imp_motivo_imposibilidad i = Some m \<and> m \<noteq> [])"
    if ex: "\<exists>z\<in>set CILINDROS_FB. h \<le> of_int z * FACTOR_CILINDRO_A_MM"
      and res: "obtener_z_sugerido h w q r = Inr res" for res
  proof -
    have a1: "mejor st1 \<noteq> None \<or> z_fallback st1 \<noteq> None" by (rule bucle_avanza [OF ex b1])
    have a2: "mejor st2 \<noteq> None \<or> z_fallback st2 \<noteq> None" by (rule bucle_avanza [OF ex b2])
    show ?thesis
    proof (cases "mejor st1")
      case (Some m)
      then show ?thesis using forma res by simp
    next
      case None
      then obtain zf m where zf: "z_fallback st1 = Some zf"
        and m: "motivo_imposibilidad st1 = Some m" "m \<noteq> []"
        using a1 i1 by auto
      note rf = retorno_final_motivo [OF zf m, of a]
      show ?thesis
      proof (cases "a \<noteq> ROLLO_BASE_MM")
        case False
        then show ?thesis using forma res None rf m by simp
      next
        case True
        show ?thesis
        proof (cases "mejor st2")
          case (Some m2)
          then show ?thesis using forma res None True by simp
        next
          case n2: None
          then obtain zf2 m2 where "z_fallback st2 = Some zf2"
            "motivo_imposibilidad st2 = Some m2" "m2 \<noteq> []"
            using a2 i2 by auto
          then show ?thesis using forma res None True n2 by simp
        qed
      qed
    qed
  qed
  then show ?thesis using forma by blast
qed

lemma paso_solo_alto:
  assumes "of_int z * FACTOR_CILINDRO_A_MM < h"
  shows "paso_cilindro False h w q a z st =
         Inr (if motivo_imposibilidad st = None
              then st\<lparr>motivo_imposibilidad := Some (motivo_alto h)\<rparr> else st)"
  using assms by (simp add: paso_cilindro_def evaluar_z_menor)

lemma bucle_solo_alto:
  assumes "\<forall>z\<in>set zs. of_int z * FACTOR_CILINDRO_A_MM < h"
  shows "bucle_cilindros False h w q a zs st =
         Inr (if zs = [] \<or> motivo_imposibilidad st \<noteq> None then st
              else st\<lparr>motivo_imposibilidad := Some (motivo_alto h)\<rparr>)"
  using assms
proof (induction zs arbitrary: st)
  case Nil
  then show ?case by simp
next
  case (Cons z zs)
  have z: "of_int z * FACTOR_CILINDRO_A_MM < h" using Cons.prems by simp
  have r: "\<forall>z\<in>set zs. of_int z * FACTOR_CILINDRO_A_MM < h" using Cons.prems by simp
  show ?case
    by (cases "motivo_imposibilidad st") (simp_all add: paso_solo_alto [OF z] Cons.IH [OF r])
qed

lemma obtener_sin_alto:
  assumes al: "\<forall>z\<in>set CILINDROS_FB. of_int z * FACTOR_CILINDRO_A_MM < h"
  shows "obtener_z_sugerido h w q r = Inr None"
proof -
  define a where "a = (case r of None \<Rightarrow> ROLLO_BASE_MM | Some x \<Rightarrow> x)"
  obtain st1 st2 where
    b1: "bucle_cilindros False h w q a CILINDROS_FB busqueda_inicial = Inr st1" and
    b2: "bucle_cilindros True h w q ROLLO_BASE_MM CILINDROS_FB busqueda_inicial = Inr st2"
    unfolding a_def by (rule obtener_casos)
  note forma = obtener_forma [OF b1 [unfolded a_def] b2, folded a_def]
  have 1: "mejor st1 = None" "z_fallback st1 = None"
    using bucle_sin_alto [OF al b1] by simp_all
  have 2: "mejor st2 = None" "z_fallback st2 = None"
    using bucle_sin_alto [OF al b2] by simp_all
  show ?thesis using forma 1 2 by (simp add: retorno_final_def)
qed

text \<open>
  Claim C1. The claim says that the selector always returns a solution or an
  impossibility with a reason, built from the vertical diagnostic when no cylinder is
  vertically feasible, and never returns nothing. For a label 600 mm high, higher than
  the largest circumference (168 * 3.175 = 533.4 mm), the first loop does store the
  vertical diagnostic of line 315, but it leaves \<^verbatim>\<open>z_fallback\<close> at \<^verbatim>\<open>None\<close>, so the
  guard of line 412 fails and the selector returns \<^verbatim>\<open>None\<close>.
\<close>

theorem C1_sin_cilindro:
  "bucle_cilindros False 600 30 10000 ROLLO_BASE_MM CILINDROS_FB busqueda_inicial =
     Inr \<lparr>mejor = None,
          motivo_imposibilidad =
            Some ''Alto 600mm no cabe en ningun cilindro disponible (60-168mm)'',
          z_fallback = None\<rparr>
   \<and> obtener_z_sugerido 600 30 10000 None = Inr None"
proof -
  have al: "\<forall>z\<in>set CILINDROS_FB. of_int z * FACTOR_CILINDRO_A_MM < 600"
    unfolding catalogo by (simp add: FACTOR_CILINDRO_A_MM_def)
  have m: "motivo_alto 600 = ''Alto 600mm no cabe en ningun cilindro disponible (60-168mm)''"
    by (simp add: motivo_alto_def str_int_def py_int_def str_nat.simps digito_def)
  have "bucle_cilindros False 600 30 10000 ROLLO_BASE_MM CILINDROS_FB busqueda_inicial =
     Inr \<lparr>mejor = None, motivo_imposibilidad = Some (motivo_alto 600), z_fallback = None\<rparr>"
    using bucle_solo_alto [OF al, of 30 10000 ROLLO_BASE_MM busqueda_inicial]
    by (simp add: catalogo busqueda_inicial_def)
  then show ?thesis using obtener_sin_alto [OF al] by (simp add: m)
qed




lemma obtener_valido:
  assumes er: "evaluar_rollo_estandar (case r of None \<Rightarrow> ROLLO_BASE_MM | Some x \<Rightarrow> x) w
                 GAP_HORIZONTAL_OBJETIVO BANDERA_HORIZONTAL = Inr er"
      and pos: "0 < etq_eje er"
      and ex: "\<exists>z\<in>set CILINDROS_FB. h \<le> of_int z * FACTOR_CILINDRO_A_MM"
  shows "\<exists>s. obtener_z_sugerido h w q r = Inr (Some (Valido s)) \<and>
             sol_ancho_rollo_mm s = (case r of None \<Rightarrow> ROLLO_BASE_MM | Some x \<Rightarrow> x) \<and>
             \<not> sol_rollo_alternativo s"
proof -
  define a where "a = (case r of None \<Rightarrow> ROLLO_BASE_MM | Some x \<Rightarrow> x)"
  obtain st1 st2 where
    b1: "bucle_cilindros False h w q a CILINDROS_FB busqueda_inicial = Inr st1" and
    b2: "bucle_cilindros True h w q ROLLO_BASE_MM CILINDROS_FB busqueda_inicial = Inr st2"
    unfolding a_def by (rule obtener_casos)
  note forma = obtener_forma [OF b1 [unfolded a_def] b2, folded a_def]
  have "z_fallback st1 = None"
    using bucle_con_ancho [OF er [folded a_def] pos b1] by simp
  then obtain m where m: "mejor st1 = Some m"
    using bucle_avanza [OF ex b1] by auto
  have "sol_rollo_alternativo m = False \<and> sol_ancho_rollo_mm m = a"
    using bucle_marca [OF _ b1] m by simp
  then show ?thesis unfolding a_def [symmetric] using forma m by simp
qed


lemmas eval_rollo_simps = evaluar_rollo_estandar_def evaluar_rollo_estandar_con_def
  cuenta_eje_def py_floordiv_def py_truediv_def py_int_def rollo_nulo_def
  GAP_HORIZONTAL_OBJETIVO_def BANDERA_HORIZONTAL_def ROLLO_BASE_MM_def

lemma obtener_sin_ancho:
  assumes er: "evaluar_rollo_estandar ROLLO_BASE_MM w GAP_HORIZONTAL_OBJETIVO
                 BANDERA_HORIZONTAL = Inr er"
      and e0: "etq_eje er \<le> 0"
  shows "obtener_z_sugerido h w q None \<noteq> Inr (Some (Valido s))"
proof -
  obtain st1 st2 where
    b1: "bucle_cilindros False h w q ROLLO_BASE_MM CILINDROS_FB busqueda_inicial = Inr st1" and
    b2: "bucle_cilindros True h w q ROLLO_BASE_MM CILINDROS_FB busqueda_inicial = Inr st2"
    using obtener_casos [of h w q None] by auto
  have n1: "mejor st1 = None" using bucle_sin_ancho [OF er e0 b1] by simp
  show ?thesis
    using obtener_forma [of h w q None st1 st2] b1 b2 n1
    by (auto simp: retorno_final_def split: option.splits if_splits)
qed


section \<open>Quantity\<close>

lemma metraje_doble:
  assumes "calcular_metraje_material q e d a aj = Inr met"
  shows "calcular_metraje_material (2 * q) e d a aj =
           Inr \<lparr>repeticiones_reales = 2 * repeticiones_reales met, ml = 2 * ml met,
                m2 = 2 * m2 met\<rparr>"
  using assms unfolding metraje_forma
  by (auto simp: field_simps)

lemma duplicar_simps [simp]:
  "mejor (duplicar_busqueda st) = map_option duplicar_solucion (mejor st)"
  "z_fallback (duplicar_busqueda st) = z_fallback st"
  "motivo_imposibilidad (duplicar_busqueda st) = motivo_imposibilidad st"
  "sol_ml (duplicar_solucion s) = 2 * sol_ml s"
  by (simp_all add: duplicar_busqueda_def duplicar_solucion_def)

lemma paso_doble:
  assumes p: "paso_cilindro seg h w q a z st = Inr st'"
  shows "paso_cilindro seg h w (2 * q) a z (duplicar_busqueda st) = Inr (duplicar_busqueda st')"
proof -
  obtain ev where ev: "evaluar_z_uniforme z h GAP_VERTICAL_OBJETIVO GAP_VERTICAL_MIN
          GAP_VERTICAL_MAX MAX_REPETICIONES_VERTICALES = Inr ev"
    using evaluar_z_constantes [of z h] by blast
  obtain er where er: "evaluar_rollo_estandar a w GAP_HORIZONTAL_OBJETIVO BANDERA_HORIZONTAL = Inr er"
    using evaluar_rollo_total by blast
  obtain met where met: "calcular_metraje_material q (ev_n ev * etq_eje er)
            (ev_desarrollo_mm ev) a AJUSTE_DESARROLLO_REP_MM = Inr met"
    using metraje_forma by blast
  note met2 = metraje_doble [OF met]
  show ?thesis
  proof (cases "ev_valido ev")
    case False
    then show ?thesis using p
      by (auto simp: paso_cilindro_def ev duplicar_busqueda_def)
  next
    case True
    show ?thesis
    proof (cases "etq_eje er \<le> 0")
      case c: True
      then show ?thesis using p True
        by (auto simp: paso_cilindro_def ev er duplicar_busqueda_def)
    next
      case c: False
      show ?thesis
      proof (cases "mejor st")
        case None
        then show ?thesis using p True c
          by (auto simp: paso_cilindro_def ev er met met2 Let_def duplicar_busqueda_def
                duplicar_solucion_def)
      next
        case (Some m)
        then show ?thesis using p True c
          by (cases "ml met < sol_ml m")
             (auto simp: paso_cilindro_def ev er met met2 Let_def duplicar_busqueda_def
                duplicar_solucion_def)
      qed
    qed
  qed
qed

lemma bucle_doble:
  assumes "bucle_cilindros seg h w q a zs st = Inr st'"
  shows "bucle_cilindros seg h w (2 * q) a zs (duplicar_busqueda st) = Inr (duplicar_busqueda st')"
  using assms
proof (induction zs arbitrary: st)
  case Nil
  then show ?case by simp
next
  case (Cons z zs)
  obtain s1 where s1: "paso_cilindro seg h w q a z st = Inr s1" using paso_total by blast
  have rest: "bucle_cilindros seg h w q a zs s1 = Inr st'" using Cons.prems by (simp add: s1)
  show ?case using paso_doble [OF s1] Cons.IH [OF rest] by simp
qed

lemma duplicar_inicial: "duplicar_busqueda busqueda_inicial = busqueda_inicial"
  by (simp add: duplicar_busqueda_def busqueda_inicial_def)

lemma retorno_final_doble: "retorno_final (duplicar_busqueda st) a = retorno_final st a"
  by (simp add: retorno_final_def split: option.splits)

lemma retorno_final_no_valido: "retorno_final st a \<noteq> Some (Valido s)"
  by (simp add: retorno_final_def split: option.splits)

lemma duplicar_resultado_simps:
  "duplicar_resultado (Some (Valido m)) = Some (Valido (duplicar_solucion m))"
  "duplicar_resultado (Some (NoValido i)) = Some (NoValido i)"
  "duplicar_resultado None = None"
  by (simp_all add: duplicar_resultado_def)

lemma duplicar_retorno: "duplicar_resultado (retorno_final st a) = retorno_final st a"
  by (simp add: duplicar_resultado_def retorno_final_def split: option.splits)

text \<open>
  Claim C5. For every label, every quantity \<open>q\<close> and every optional roll width, the
  selector returns for \<open>2 * q\<close> what it returns for \<open>q\<close> with revolutions, linear
  meters and area doubled: the same cylinder, the same repeats and the same count
  across, and twice the linear meters. (The statement does not need \<open>q \<ge> 1\<close>.)
\<close>

theorem C5_duplicar_unidades:
  "\<exists>res. obtener_z_sugerido h w q r = Inr res \<and>
         obtener_z_sugerido h w (2 * q) r = Inr (duplicar_resultado res) \<and>
         (\<forall>s. res = Some (Valido s) \<longrightarrow>
            (\<exists>s2. duplicar_resultado res = Some (Valido s2) \<and>
                  sol_z s2 = sol_z s \<and> sol_n s2 = sol_n s \<and> sol_etq_eje s2 = sol_etq_eje s \<and>
                  sol_ml s2 = 2 * sol_ml s))"
proof -
  define a where "a = (case r of None \<Rightarrow> ROLLO_BASE_MM | Some x \<Rightarrow> x)"
  obtain st1 st2 where
    b1: "bucle_cilindros False h w q a CILINDROS_FB busqueda_inicial = Inr st1" and
    b2: "bucle_cilindros True h w q ROLLO_BASE_MM CILINDROS_FB busqueda_inicial = Inr st2"
    unfolding a_def by (rule obtener_casos)
  have d1: "bucle_cilindros False h w (2 * q) a CILINDROS_FB busqueda_inicial =
              Inr (duplicar_busqueda st1)"
    using bucle_doble [OF b1] by (simp add: duplicar_inicial)
  have d2: "bucle_cilindros True h w (2 * q) ROLLO_BASE_MM CILINDROS_FB busqueda_inicial =
              Inr (duplicar_busqueda st2)"
    using bucle_doble [OF b2] by (simp add: duplicar_inicial)
  note f1 = obtener_forma [OF b1 [unfolded a_def] b2, folded a_def]
  note f2 = obtener_forma [OF d1 [unfolded a_def] d2, folded a_def]
  define res where "res = (case mejor st1 of
            Some m \<Rightarrow> Some (Valido m)
          | None \<Rightarrow>
              if a \<noteq> ROLLO_BASE_MM
              then (case mejor st2 of
                      Some m \<Rightarrow> Some (Valido m)
                    | None \<Rightarrow>
                        (case z_fallback st2 of
                           Some zf \<Rightarrow> Some (NoValido
                                  \<lparr>imp_z = zf, imp_ancho_rollo_mm = ROLLO_BASE_MM,
                                   imp_motivo_imposibilidad = motivo_imposibilidad st2,
                                   imp_gap_horizontal_real = 0\<rparr>)
                         | None \<Rightarrow> retorno_final st1 a))
              else retorno_final st1 a)"
  have r1: "obtener_z_sugerido h w q r = Inr res" using f1 by (simp add: res_def)
  have r2: "obtener_z_sugerido h w (2 * q) r = Inr (duplicar_resultado res)"
  proof (cases "mejor st1")
    case (Some m)
    then show ?thesis unfolding f2 res_def by (simp add: duplicar_resultado_simps)
  next
    case n1: None
    show ?thesis
    proof (cases "a \<noteq> ROLLO_BASE_MM")
      case False
      then show ?thesis unfolding f2 res_def using n1
        by (simp add: retorno_final_doble duplicar_retorno)
    next
      case ne: True
      show ?thesis
      proof (cases "mejor st2")
        case (Some m)
        then show ?thesis unfolding f2 res_def using n1 ne
          by (simp add: duplicar_resultado_simps)
      next
        case n2: None
        show ?thesis
        proof (cases "z_fallback st2")
          case None
          then show ?thesis unfolding f2 res_def using n1 ne n2
            by (simp add: retorno_final_doble duplicar_retorno)
        next
          case (Some zf)
          then show ?thesis unfolding f2 res_def using n1 ne n2
            by (simp add: duplicar_resultado_simps)
        qed
      qed
    qed
  qed
  have r3: "\<exists>s2. duplicar_resultado res = Some (Valido s2) \<and>
                  sol_z s2 = sol_z s \<and> sol_n s2 = sol_n s \<and> sol_etq_eje s2 = sol_etq_eje s \<and>
                  sol_ml s2 = 2 * sol_ml s" if "res = Some (Valido s)" for s
    using that by (simp add: duplicar_resultado_simps duplicar_solucion_def)
  show ?thesis using r1 r2 r3 by blast
qed

theorem C5_duplicar_unidades_witness:
  "\<exists>s s2. obtener_z_sugerido 50 30 10000 None = Inr (Some (Valido s)) \<and>
          obtener_z_sugerido 50 30 20000 None = Inr (Some (Valido s2)) \<and>
          sol_z s2 = sol_z s \<and> sol_n s2 = sol_n s \<and> sol_etq_eje s2 = sol_etq_eje s \<and>
          sol_ml s2 = 2 * sol_ml s"
proof -
  have er: "evaluar_rollo_estandar (case None of None \<Rightarrow> ROLLO_BASE_MM | Some x \<Rightarrow> x)
       30 GAP_HORIZONTAL_OBJETIVO BANDERA_HORIZONTAL =
     Inr \<lparr>etq_eje = 9, gap_entre = Some 5, aprovechamiento_pct = 2700 / 31,
          ancho_util = Some 310\<rparr>"
    by (simp add: eval_rollo_simps)
  have ex: "\<exists>z\<in>set CILINDROS_FB. (50 :: real) \<le> of_int z * FACTOR_CILINDRO_A_MM"
    using catalogo_168 by (intro bexI [of _ 168]) (simp_all add: FACTOR_CILINDRO_A_MM_def)
  obtain s where o: "obtener_z_sugerido 50 30 10000 None = Inr (Some (Valido s))"
    using obtener_valido [OF er _ ex, of 10000] by auto
  from C5_duplicar_unidades [of 50 30 10000 None] o
  obtain s2 where "obtener_z_sugerido 50 30 (2 * 10000) None = Inr (Some (Valido s2))"
    "sol_z s2 = sol_z s" "sol_n s2 = sol_n s" "sol_etq_eje s2 = sol_etq_eje s"
    "sol_ml s2 = 2 * sol_ml s"
    by auto
  then show ?thesis using o by auto
qed

lemma metraje_positivo:
  assumes q: "0 < q" and e: "0 < e" and d: "0 < d" and a: "0 < a"
      and m: "calcular_metraje_material q e d a AJUSTE_DESARROLLO_REP_MM = Inr met"
  shows "0 < ml met \<and> 0 < m2 met"
proof -
  have r: "0 < real_of_int q / real_of_int e" using q e by simp
  have 1: "0 < real_of_int q / real_of_int e * d" using r d by (rule mult_pos_pos)
  have "(0 :: real) < AJUSTE_DESARROLLO_REP_MM" by (simp add: AJUSTE_DESARROLLO_REP_MM_def)
  with r have 2: "0 < real_of_int q / real_of_int e * AJUSTE_DESARROLLO_REP_MM"
    by (rule mult_pos_pos)
  have met: "met = \<lparr>repeticiones_reales = of_int q / of_int e,
                ml = (of_int q / of_int e * d + of_int q / of_int e * AJUSTE_DESARROLLO_REP_MM) / 1000,
                m2 = (of_int q / of_int e * d + of_int q / of_int e * AJUSTE_DESARROLLO_REP_MM) / 1000
                       * (a / 1000)\<rparr>"
    using m e d a unfolding metraje_forma by simp
  have "ml met = (real_of_int q / real_of_int e * d
                   + real_of_int q / real_of_int e * AJUSTE_DESARROLLO_REP_MM) / 1000"
    unfolding met by simp
  moreover have "0 < (real_of_int q / real_of_int e * d
                   + real_of_int q / real_of_int e * AJUSTE_DESARROLLO_REP_MM) / 1000"
    using 1 2 by (intro divide_pos_pos add_pos_pos) simp_all
  ultimately have 3: "0 < ml met" by simp
  have "m2 met = ml met * (a / 1000)" unfolding met by simp
  moreover have "0 < ml met * (a / 1000)" using 3 a by (intro mult_pos_pos) simp_all
  ultimately have 4: "0 < m2 met" by simp
  show ?thesis using 3 4 by simp
qed

lemma paso_positivo:
  assumes z: "0 < z" and q: "0 < q"
      and i: "\<forall>m. mejor s = Some m \<longrightarrow> 0 < sol_ml m \<and> 0 < sol_m2 m"
      and p: "paso_cilindro seg h w q a z s = Inr s'"
  shows "\<forall>m. mejor s' = Some m \<longrightarrow> 0 < sol_ml m \<and> 0 < sol_m2 m"
proof (cases rule: paso_cilindro_casos [of z h seg w q a s])
  case invalido
  then show ?thesis using i p by (auto split: if_splits)
next
  case (no_cabe er)
  then show ?thesis using i p by (auto split: if_splits)
next
  case (cabe ev er met)
  have e: "0 < ev_n ev * etq_eje er" using cabe(4,7) by simp
  have d: "0 < ev_desarrollo_mm ev"
    using z by (simp add: cabe(5) FACTOR_CILINDRO_A_MM_def)
  have a: "0 < a" by (rule evaluar_rollo_positivo [OF cabe(6,7)])
  have "0 < ml met \<and> 0 < m2 met" by (rule metraje_positivo [OF q e d a cabe(8)])
  then show ?thesis using i p cabe(9) by (auto simp: solucion_de_def split: if_splits)
qed

lemma bucle_positivo:
  assumes zs: "\<forall>z\<in>set zs. 0 < z" and q: "0 < q"
      and i: "\<forall>m. mejor st = Some m \<longrightarrow> 0 < sol_ml m \<and> 0 < sol_m2 m"
      and b: "bucle_cilindros seg h w q a zs st = Inr st'"
  shows "\<forall>m. mejor st' = Some m \<longrightarrow> 0 < sol_ml m \<and> 0 < sol_m2 m"
  using b i
proof (rule bucle_invariante)
  fix z s s'
  assume zin: "z \<in> set zs"
    and s: "\<forall>m. mejor s = Some m \<longrightarrow> 0 < sol_ml m \<and> 0 < sol_m2 m"
    and p: "paso_cilindro seg h w q a z s = Inr s'"
  have "0 < z" using zs zin by simp
  then show "\<forall>m. mejor s' = Some m \<longrightarrow> 0 < sol_ml m \<and> 0 < sol_m2 m"
    using q s p by (rule paso_positivo)
qed

lemma obtener_positivo:
  assumes q: "0 < q" and o: "obtener_z_sugerido h w q r = Inr (Some (Valido s))"
  shows "0 < sol_ml s \<and> 0 < sol_m2 s"
proof -
  define a where "a = (case r of None \<Rightarrow> ROLLO_BASE_MM | Some x \<Rightarrow> x)"
  obtain st1 st2 where
    b1: "bucle_cilindros False h w q a CILINDROS_FB busqueda_inicial = Inr st1" and
    b2: "bucle_cilindros True h w q ROLLO_BASE_MM CILINDROS_FB busqueda_inicial = Inr st2"
    unfolding a_def by (rule obtener_casos)
  note forma = obtener_forma [OF b1 [unfolded a_def] b2, folded a_def]
  have zs: "\<forall>z\<in>set CILINDROS_FB. 0 < z" using catalogo_cotas by blast
  have p1: "\<forall>m. mejor st1 = Some m \<longrightarrow> 0 < sol_ml m \<and> 0 < sol_m2 m"
    by (rule bucle_positivo [OF zs q _ b1]) simp
  have p2: "\<forall>m. mejor st2 = Some m \<longrightarrow> 0 < sol_ml m \<and> 0 < sol_m2 m"
    by (rule bucle_positivo [OF zs q _ b2]) simp
  have "mejor st1 = Some s \<or> mejor st2 = Some s"
    using forma o retorno_final_no_valido [of st1 a s]
    by (auto split: option.splits if_splits)
  then show ?thesis using p1 p2 by blast
qed

text \<open>
  The search for a label 400 mm high and 30 mm wide on the 330 mm roll, evaluated step by
  step: the cylinders 168, 129 and 127 hold the label, the other nineteen are too short.
\<close>

lemma bucle_paso:
  "paso_cilindro seg h w q a z st = Inr st' \<Longrightarrow>
   bucle_cilindros seg h w q a (z # zs) st = bucle_cilindros seg h w q a zs st'"
  by simp

lemma ev_168: "evaluar_z_uniforme 168 400 GAP_VERTICAL_OBJETIVO GAP_VERTICAL_MIN GAP_VERTICAL_MAX
      MAX_REPETICIONES_VERTICALES = Inr \<lparr>ev_z = 168, ev_desarrollo_mm = 533.4, ev_n = 1,
        ev_gap = 133.4, ev_diff_obj = 130.7, ev_valido = True, ev_detalle = DetalleOK\<rparr>"
  by (simp add: eval_z_simps)

lemma ev_129: "evaluar_z_uniforme 129 400 GAP_VERTICAL_OBJETIVO GAP_VERTICAL_MIN GAP_VERTICAL_MAX
      MAX_REPETICIONES_VERTICALES = Inr \<lparr>ev_z = 129, ev_desarrollo_mm = 409.575, ev_n = 1,
        ev_gap = 9.575, ev_diff_obj = 6.875, ev_valido = True, ev_detalle = DetalleOK\<rparr>"
  by (simp add: eval_z_simps)

lemma ev_127: "evaluar_z_uniforme 127 400 GAP_VERTICAL_OBJETIVO GAP_VERTICAL_MIN GAP_VERTICAL_MAX
      MAX_REPETICIONES_VERTICALES = Inr \<lparr>ev_z = 127, ev_desarrollo_mm = 403.225, ev_n = 1,
        ev_gap = 3.225, ev_diff_obj = 0.525, ev_valido = True, ev_detalle = DetalleOK\<rparr>"
  by (simp add: eval_z_simps)

lemma er_330_30: "evaluar_rollo_estandar 330 30 GAP_HORIZONTAL_OBJETIVO BANDERA_HORIZONTAL =
     Inr \<lparr>etq_eje = 9, gap_entre = Some 5, aprovechamiento_pct = 2700 / 31,
          ancho_util = Some 310\<rparr>"
  by (simp add: eval_rollo_simps)

lemma resto_400:
  "bucle_cilindros False 400 w q a [122, 117, 116, 111, 108, 107, 105, 102, 99, 97,
      91, 88, 84, 80, 77, 74, 70, 67, 60] st =
   Inr (if motivo_imposibilidad st \<noteq> None then st
        else st\<lparr>motivo_imposibilidad := Some (motivo_alto 400)\<rparr>)"
proof -
  have "\<forall>z\<in>set [122, 117, 116, 111, 108, 107, 105, 102, 99, 97,
      91, 88, 84, 80, 77, 74, 70, 67, 60 :: int]. of_int z * FACTOR_CILINDRO_A_MM < 400"
    by (simp add: FACTOR_CILINDRO_A_MM_def)
  from bucle_solo_alto [OF this] show ?thesis by simp
qed

lemma paso_valido_400:
  assumes ev: "evaluar_z_uniforme z 400 GAP_VERTICAL_OBJETIVO GAP_VERTICAL_MIN GAP_VERTICAL_MAX
      MAX_REPETICIONES_VERTICALES = Inr ev" and v: "ev_valido ev"
      and met: "calcular_metraje_material q (ev_n ev * 9) (ev_desarrollo_mm ev) 330
             AJUSTE_DESARROLLO_REP_MM = Inr met"
  shows "paso_cilindro False 400 30 q 330 z st =
          Inr (if (case mejor st of None \<Rightarrow> True | Some m \<Rightarrow> ml met < sol_ml m)
               then st\<lparr>mejor := Some (solucion_de False z ev
                      \<lparr>etq_eje = 9, gap_entre = Some 5, aprovechamiento_pct = 2700 / 31,
                       ancho_util = Some 310\<rparr> met 330)\<rparr>
               else st)"
  using v by (simp add: paso_cilindro_def ev er_330_30 met Let_def solucion_de_def)

lemma busqueda_400_cero:
  "bucle_cilindros False 400 30 0 330 CILINDROS_FB busqueda_inicial =
     Inr \<lparr>mejor = Some \<lparr>sol_z = 168, sol_n = 1, sol_desarrollo_mm = 533.4,
            sol_gap_vertical = 133.4, sol_etq_eje = 9,
            sol_gap_horizontal_real = Some 5, sol_etq_repeat = 9,
            sol_repeticiones = 0, sol_ml = 0, sol_m2 = 0, sol_ancho_rollo_mm = 330,
            sol_rollo_alternativo = False\<rparr>,
          motivo_imposibilidad = Some (motivo_alto 400), z_fallback = None\<rparr>"
proof -
  define s1 where "s1 = \<lparr>mejor = Some \<lparr>sol_z = 168, sol_n = 1, sol_desarrollo_mm = 533.4,
            sol_gap_vertical = 133.4, sol_etq_eje = 9,
            sol_gap_horizontal_real = Some 5, sol_etq_repeat = 9,
            sol_repeticiones = 0, sol_ml = 0, sol_m2 = 0, sol_ancho_rollo_mm = 330,
            sol_rollo_alternativo = False\<rparr>,
          motivo_imposibilidad = None, z_fallback = None\<rparr>"
  have m168: "calcular_metraje_material 0 (1 * 9) 533.4 330 AJUSTE_DESARROLLO_REP_MM =
      Inr \<lparr>repeticiones_reales = 0, ml = 0, m2 = 0\<rparr>"
    by (simp add: metraje_forma)
  have m129: "calcular_metraje_material 0 (1 * 9) 409.575 330 AJUSTE_DESARROLLO_REP_MM =
      Inr \<lparr>repeticiones_reales = 0, ml = 0, m2 = 0\<rparr>"
    by (simp add: metraje_forma)
  have m127: "calcular_metraje_material 0 (1 * 9) 403.225 330 AJUSTE_DESARROLLO_REP_MM =
      Inr \<lparr>repeticiones_reales = 0, ml = 0, m2 = 0\<rparr>"
    by (simp add: metraje_forma)
  have p1: "paso_cilindro False 400 30 0 330 168 busqueda_inicial = Inr s1"
    using paso_valido_400 [OF ev_168, of 0 _ busqueda_inicial] m168
    by (simp add: s1_def solucion_de_def busqueda_inicial_def)
  have p2: "paso_cilindro False 400 30 0 330 129 s1 = Inr s1"
    using paso_valido_400 [OF ev_129, of 0 _ s1] m129 by (simp add: s1_def)
  have p3: "paso_cilindro False 400 30 0 330 127 s1 = Inr s1"
    using paso_valido_400 [OF ev_127, of 0 _ s1] m127 by (simp add: s1_def)
  have "bucle_cilindros False 400 30 0 330 CILINDROS_FB busqueda_inicial =
        bucle_cilindros False 400 30 0 330 [129, 127, 122, 117, 116, 111, 108, 107, 105, 102,
          99, 97, 91, 88, 84, 80, 77, 74, 70, 67, 60] s1"
    unfolding catalogo by (rule bucle_paso [OF p1])
  also have "\<dots> = bucle_cilindros False 400 30 0 330 [127, 122, 117, 116, 111, 108, 107, 105,
          102, 99, 97, 91, 88, 84, 80, 77, 74, 70, 67, 60] s1"
    by (rule bucle_paso [OF p2])
  also have "\<dots> = bucle_cilindros False 400 30 0 330 [122, 117, 116, 111, 108, 107, 105,
          102, 99, 97, 91, 88, 84, 80, 77, 74, 70, 67, 60] s1"
    by (rule bucle_paso [OF p3])
  also have "\<dots> = Inr (s1\<lparr>motivo_imposibilidad := Some (motivo_alto 400)\<rparr>)"
    unfolding resto_400 by (simp add: s1_def)
  finally show ?thesis by (simp add: s1_def)
qed

lemma busqueda_400_uno:
  "bucle_cilindros False 400 30 1 330 CILINDROS_FB busqueda_inicial =
     Inr \<lparr>mejor = Some \<lparr>sol_z = 127, sol_n = 1, sol_desarrollo_mm = 403.225,
            sol_gap_vertical = 3.225, sol_etq_eje = 9,
            sol_gap_horizontal_real = Some 5, sol_etq_repeat = 9,
            sol_repeticiones = 1 / 9, sol_ml = 403.975 / 9000,
            sol_m2 = 403.975 / 9000 * 0.33, sol_ancho_rollo_mm = 330,
            sol_rollo_alternativo = False\<rparr>,
          motivo_imposibilidad = Some (motivo_alto 400), z_fallback = None\<rparr>"
proof -
  define s1 where "s1 = \<lparr>mejor = Some \<lparr>sol_z = 168, sol_n = 1, sol_desarrollo_mm = 533.4,
            sol_gap_vertical = 133.4, sol_etq_eje = 9,
            sol_gap_horizontal_real = Some 5, sol_etq_repeat = 9,
            sol_repeticiones = 1 / 9, sol_ml = 534.15 / 9000,
            sol_m2 = 534.15 / 9000 * 0.33, sol_ancho_rollo_mm = 330,
            sol_rollo_alternativo = False\<rparr>,
          motivo_imposibilidad = None, z_fallback = None\<rparr>"
  define s2 where "s2 = \<lparr>mejor = Some \<lparr>sol_z = 129, sol_n = 1, sol_desarrollo_mm = 409.575,
            sol_gap_vertical = 9.575, sol_etq_eje = 9,
            sol_gap_horizontal_real = Some 5, sol_etq_repeat = 9,
            sol_repeticiones = 1 / 9, sol_ml = 410.325 / 9000,
            sol_m2 = 410.325 / 9000 * 0.33, sol_ancho_rollo_mm = 330,
            sol_rollo_alternativo = False\<rparr>,
          motivo_imposibilidad = None, z_fallback = None\<rparr>"
  define s3 where "s3 = \<lparr>mejor = Some \<lparr>sol_z = 127, sol_n = 1, sol_desarrollo_mm = 403.225,
            sol_gap_vertical = 3.225, sol_etq_eje = 9,
            sol_gap_horizontal_real = Some 5, sol_etq_repeat = 9,
            sol_repeticiones = 1 / 9, sol_ml = 403.975 / 9000,
            sol_m2 = 403.975 / 9000 * 0.33, sol_ancho_rollo_mm = 330,
            sol_rollo_alternativo = False\<rparr>,
          motivo_imposibilidad = None, z_fallback = None\<rparr>"
  have m168: "calcular_metraje_material 1 (1 * 9) 533.4 330 AJUSTE_DESARROLLO_REP_MM =
      Inr \<lparr>repeticiones_reales = 1 / 9, ml = 534.15 / 9000, m2 = 534.15 / 9000 * 0.33\<rparr>"
    by (simp add: metraje_forma AJUSTE_DESARROLLO_REP_MM_def)
  have m129: "calcular_metraje_material 1 (1 * 9) 409.575 330 AJUSTE_DESARROLLO_REP_MM =
      Inr \<lparr>repeticiones_reales = 1 / 9, ml = 410.325 / 9000, m2 = 410.325 / 9000 * 0.33\<rparr>"
    by (simp add: metraje_forma AJUSTE_DESARROLLO_REP_MM_def)
  have m127: "calcular_metraje_material 1 (1 * 9) 403.225 330 AJUSTE_DESARROLLO_REP_MM =
      Inr \<lparr>repeticiones_reales = 1 / 9, ml = 403.975 / 9000, m2 = 403.975 / 9000 * 0.33\<rparr>"
    by (simp add: metraje_forma AJUSTE_DESARROLLO_REP_MM_def)
  have p1: "paso_cilindro False 400 30 1 330 168 busqueda_inicial = Inr s1"
    using paso_valido_400 [OF ev_168, of 1 _ busqueda_inicial] m168
    by (simp add: s1_def solucion_de_def busqueda_inicial_def)
  have p2: "paso_cilindro False 400 30 1 330 129 s1 = Inr s2"
    using paso_valido_400 [OF ev_129, of 1 _ s1] m129
    by (simp add: s1_def s2_def solucion_de_def)
  have p3: "paso_cilindro False 400 30 1 330 127 s2 = Inr s3"
    using paso_valido_400 [OF ev_127, of 1 _ s2] m127
    by (simp add: s2_def s3_def solucion_de_def)
  have "bucle_cilindros False 400 30 1 330 CILINDROS_FB busqueda_inicial =
        bucle_cilindros False 400 30 1 330 [129, 127, 122, 117, 116, 111, 108, 107, 105, 102,
          99, 97, 91, 88, 84, 80, 77, 74, 70, 67, 60] s1"
    unfolding catalogo by (rule bucle_paso [OF p1])
  also have "\<dots> = bucle_cilindros False 400 30 1 330 [127, 122, 117, 116, 111, 108, 107, 105,
          102, 99, 97, 91, 88, 84, 80, 77, 74, 70, 67, 60] s2"
    by (rule bucle_paso [OF p2])
  also have "\<dots> = bucle_cilindros False 400 30 1 330 [122, 117, 116, 111, 108, 107, 105,
          102, 99, 97, 91, 88, 84, 80, 77, 74, 70, 67, 60] s3"
    by (rule bucle_paso [OF p3])
  also have "\<dots> = Inr (s3\<lparr>motivo_imposibilidad := Some (motivo_alto 400)\<rparr>)"
    unfolding resto_400 by (simp add: s3_def)
  finally show ?thesis by (simp add: s3_def)
qed

lemma obtener_del_primer_bucle:
  assumes "(case r of None \<Rightarrow> ROLLO_BASE_MM | Some x \<Rightarrow> x) = a"
      and "bucle_cilindros False h w q a CILINDROS_FB busqueda_inicial = Inr st"
      and "mejor st = Some m"
  shows "obtener_z_sugerido h w q r = Inr (Some (Valido m))"
  using assms by (simp add: obtener_z_sugerido_def)

lemma obtener_400_cero:
  assumes "(case r of None \<Rightarrow> ROLLO_BASE_MM | Some x \<Rightarrow> x) = 330"
  shows "obtener_z_sugerido 400 30 0 r =
     Inr (Some (Valido \<lparr>sol_z = 168, sol_n = 1, sol_desarrollo_mm = 533.4,
            sol_gap_vertical = 133.4, sol_etq_eje = 9,
            sol_gap_horizontal_real = Some 5, sol_etq_repeat = 9,
            sol_repeticiones = 0, sol_ml = 0, sol_m2 = 0, sol_ancho_rollo_mm = 330,
            sol_rollo_alternativo = False\<rparr>))"
  by (rule obtener_del_primer_bucle [OF assms busqueda_400_cero]) simp

lemma obtener_400_uno:
  assumes "(case r of None \<Rightarrow> ROLLO_BASE_MM | Some x \<Rightarrow> x) = 330"
  shows "obtener_z_sugerido 400 30 1 r =
     Inr (Some (Valido \<lparr>sol_z = 127, sol_n = 1, sol_desarrollo_mm = 403.225,
            sol_gap_vertical = 3.225, sol_etq_eje = 9,
            sol_gap_horizontal_real = Some 5, sol_etq_repeat = 9,
            sol_repeticiones = 1 / 9, sol_ml = 403.975 / 9000,
            sol_m2 = 403.975 / 9000 * 0.33, sol_ancho_rollo_mm = 330,
            sol_rollo_alternativo = False\<rparr>))"
  by (rule obtener_del_primer_bucle [OF assms busqueda_400_uno]) simp

text \<open>
  With the quantity 0 every candidate has 0 linear meters, so the first cylinder that
  holds the label is kept: the cylinder 168, the first of the catalog.
\<close>

lemma metraje_cero:
  assumes "calcular_metraje_material 0 e d a aj = Inr met"
  shows "repeticiones_reales met = 0 \<and> ml met = 0 \<and> m2 met = 0"
  using assms unfolding metraje_forma by (auto split: if_splits)

lemma paso_primero_cero:
  assumes n: "mejor st = None"
      and p: "paso_cilindro seg h w 0 a 168 st = Inr s1"
  shows "(\<exists>m. mejor s1 = Some m \<and> sol_z m = 168 \<and> sol_repeticiones m = 0
              \<and> sol_ml m = 0 \<and> sol_m2 m = 0)
         \<or> (mejor s1 = None \<and>
            (168 * FACTOR_CILINDRO_A_MM < h
             \<or> (\<exists>er. evaluar_rollo_estandar a w GAP_HORIZONTAL_OBJETIVO BANDERA_HORIZONTAL = Inr er
                     \<and> etq_eje er \<le> 0)))"
proof (cases rule: paso_cilindro_casos [of 168 h seg w 0 a st])
  case invalido
  then show ?thesis using n p by (auto split: if_splits)
next
  case (no_cabe er)
  then show ?thesis using n p by (auto split: if_splits)
next
  case (cabe ev er met)
  have z: "repeticiones_reales met = 0 \<and> ml met = 0 \<and> m2 met = 0"
    using cabe(8) by (rule metraje_cero)
  have "s1 = st\<lparr>mejor := Some (solucion_de seg 168 ev er met a)\<rparr>"
    using cabe(9) n p by simp
  then show ?thesis using z by (simp add: solucion_de_def)
qed

lemma paso_resto_cero:
  assumes z: "z \<le> 168"
      and k1: "\<forall>m. mejor s = Some m \<longrightarrow> sol_z m = 168 \<and> sol_repeticiones m = 0
                    \<and> sol_ml m = 0 \<and> sol_m2 m = 0"
      and k2: "mejor s = None \<longrightarrow>
                 168 * FACTOR_CILINDRO_A_MM < h
                 \<or> (\<exists>er. evaluar_rollo_estandar a w GAP_HORIZONTAL_OBJETIVO BANDERA_HORIZONTAL = Inr er
                         \<and> etq_eje er \<le> 0)"
      and p: "paso_cilindro seg h w 0 a z s = Inr s'"
  shows "mejor s' = mejor s"
proof (cases rule: paso_cilindro_casos [of z h seg w 0 a s])
  case invalido
  then show ?thesis using p by (auto split: if_splits)
next
  case (no_cabe er)
  then show ?thesis using p by (auto split: if_splits)
next
  case (cabe ev er met)
  have m0: "ml met = 0" using metraje_cero [OF cabe(8)] by simp
  have "real_of_int z * FACTOR_CILINDRO_A_MM \<le> 168 * FACTOR_CILINDRO_A_MM"
    using z by (simp add: FACTOR_CILINDRO_A_MM_def)
  then have "\<not> 168 * FACTOR_CILINDRO_A_MM < h" using cabe(1) by simp
  moreover have "\<not> (\<exists>er. evaluar_rollo_estandar a w GAP_HORIZONTAL_OBJETIVO BANDERA_HORIZONTAL = Inr er
                         \<and> etq_eje er \<le> 0)"
    using cabe(6,7) by simp
  ultimately obtain m where m: "mejor s = Some m" using k2 by (cases "mejor s") auto
  then have "sol_ml m = 0" using k1 by simp
  then have "s' = s" using cabe(9) p m m0 by simp
  then show ?thesis by simp
qed

lemma bucle_cero:
  assumes b: "bucle_cilindros seg h w 0 a CILINDROS_FB busqueda_inicial = Inr st"
      and m: "mejor st = Some m"
  shows "sol_z m = 168 \<and> sol_repeticiones m = 0 \<and> sol_ml m = 0 \<and> sol_m2 m = 0"
proof -
  define B where "B \<longleftrightarrow> 168 * FACTOR_CILINDRO_A_MM < h
       \<or> (\<exists>er. evaluar_rollo_estandar a w GAP_HORIZONTAL_OBJETIVO BANDERA_HORIZONTAL = Inr er
               \<and> etq_eje er \<le> 0)"
  define K :: "busqueda \<Rightarrow> bool" where "K = (\<lambda>s. (\<forall>m. mejor s = Some m \<longrightarrow> sol_z m = 168 \<and> sol_repeticiones m = 0
                    \<and> sol_ml m = 0 \<and> sol_m2 m = 0) \<and> (mejor s = None \<longrightarrow> B))"
  define resto :: "int list" where "resto = [129, 127, 122, 117, 116, 111, 108, 107, 105, 102,
          99, 97, 91, 88, 84, 80, 77, 74, 70, 67, 60]"
  obtain s1 where p1: "paso_cilindro seg h w 0 a 168 busqueda_inicial = Inr s1"
    using paso_total by blast
  have "mejor busqueda_inicial = None" by (simp add: busqueda_inicial_def)
  from paso_primero_cero [OF this p1] have k1: "K s1"
    unfolding K_def B_def by auto
  have b2: "bucle_cilindros seg h w 0 a resto s1 = Inr st"
    using b bucle_paso [OF p1, of resto] unfolding catalogo resto_def by simp
  have "K st"
    using b2 k1
  proof (rule bucle_invariante)
    fix z s s'
    assume zin: "z \<in> set resto" and ks: "K s"
      and p: "paso_cilindro seg h w 0 a z s = Inr s'"
    have "z \<le> 168" using zin unfolding resto_def by auto
    then have "mejor s' = mejor s"
      using ks p unfolding K_def B_def by (intro paso_resto_cero [of z s h a w seg s']) auto
    then show "K s'" using ks unfolding K_def by simp
  qed
  then show ?thesis using m unfolding K_def by simp
qed

lemma obtener_cero:
  assumes o: "obtener_z_sugerido h w 0 r = Inr (Some (Valido s))"
  shows "sol_z s = 168 \<and> sol_repeticiones s = 0 \<and> sol_ml s = 0 \<and> sol_m2 s = 0"
proof -
  define a where "a = (case r of None \<Rightarrow> ROLLO_BASE_MM | Some x \<Rightarrow> x)"
  obtain st1 st2 where
    b1: "bucle_cilindros False h w 0 a CILINDROS_FB busqueda_inicial = Inr st1" and
    b2: "bucle_cilindros True h w 0 ROLLO_BASE_MM CILINDROS_FB busqueda_inicial = Inr st2"
    unfolding a_def by (rule obtener_casos)
  note forma = obtener_forma [OF b1 [unfolded a_def] b2, folded a_def]
  have "mejor st1 = Some s \<or> mejor st2 = Some s"
    using forma o retorno_final_no_valido [of st1 a s]
    by (auto split: option.splits if_splits)
  then show ?thesis using bucle_cero [OF b1] bucle_cero [OF b2] by blast
qed

lemma unidades_cero_uno: "unidades_para_calculo 0 = 1" "unidades_para_calculo 1 = 1"
  by (simp_all add: unidades_para_calculo_def py_int_def)

lemma fila_400:
  "calcular_z_y_metraje 400 30 1 nombre codigo None imps =
     Inr (fila_solucion 30 \<lparr>sol_z = 127, sol_n = 1, sol_desarrollo_mm = 403.225,
            sol_gap_vertical = 3.225, sol_etq_eje = 9,
            sol_gap_horizontal_real = Some 5, sol_etq_repeat = 9,
            sol_repeticiones = 1 / 9, sol_ml = 403.975 / 9000,
            sol_m2 = 403.975 / 9000 * 0.33, sol_ancho_rollo_mm = 330,
            sol_rollo_alternativo = False\<rparr>, imps)"
proof -
  have "obtener_z_sugerido 400 30 1 (Some ROLLO_BASE_MM) =
     Inr (Some (Valido \<lparr>sol_z = 127, sol_n = 1, sol_desarrollo_mm = 403.225,
            sol_gap_vertical = 3.225, sol_etq_eje = 9,
            sol_gap_horizontal_real = Some 5, sol_etq_repeat = 9,
            sol_repeticiones = 1 / 9, sol_ml = 403.975 / 9000,
            sol_m2 = 403.975 / 9000 * 0.33, sol_ancho_rollo_mm = 330,
            sol_rollo_alternativo = False\<rparr>))"
    by (rule obtener_400_uno) (simp add: ROLLO_BASE_MM_def)
  then show ?thesis by (simp add: calcular_z_y_metraje_def unidades_cero_uno)
qed

lemma redondeo_ml_400: "py_round (403.975 / 9000) 2 = 0.04"
proof -
  have "\<lfloor>403.975 / 9000 * 10 ^ 2 :: real\<rfloor> = 4" by (simp add: floor_eq_iff)
  then show ?thesis by (simp add: py_round_def redondeo_par_def Let_def)
qed

lemma redondeo_m2_400: "py_round (403.975 / 9000 * 0.33) 2 = 0.01"
proof -
  have "\<lfloor>403.975 / 9000 * 0.33 * 10 ^ 2 :: real\<rfloor> = 1" by (simp add: floor_eq_iff)
  then show ?thesis by (simp add: py_round_def redondeo_par_def Let_def)
qed

text \<open>
  Claim C9, amended. The optimizer substitutes nothing: called with the quantity 0, every
  solution it returns is the first cylinder of the catalog, 168, with 0 revolutions,
  0 linear meters and 0 square meters, while with the quantity 1 the linear meters and
  the area of a solution are positive. The substitution is made by the caller,
  \<^verbatim>\<open>calcular_z_y_metraje\<close> (line 1254): for every label the row it returns for zero
  labels to produce, and the list of impossibilities, are those it returns for one label
  to produce.
\<close>

theorem C9_cantidad_cero:
  "calcular_z_y_metraje alto ancho 0 nombre codigo rollo imps =
     calcular_z_y_metraje alto ancho 1 nombre codigo rollo imps
   \<and> (\<forall>s. obtener_z_sugerido alto ancho 0 r = Inr (Some (Valido s)) \<longrightarrow>
          sol_z s = 168 \<and> sol_repeticiones s = 0 \<and> sol_ml s = 0 \<and> sol_m2 s = 0)
   \<and> (\<forall>s. obtener_z_sugerido alto ancho 1 r = Inr (Some (Valido s)) \<longrightarrow>
          0 < sol_ml s \<and> 0 < sol_m2 s)"
proof -
  have 1: "calcular_z_y_metraje alto ancho 0 nombre codigo rollo imps =
           calcular_z_y_metraje alto ancho 1 nombre codigo rollo imps"
    unfolding calcular_z_y_metraje_def unidades_cero_uno by (rule refl)
  have 2: "sol_z s = 168 \<and> sol_repeticiones s = 0 \<and> sol_ml s = 0 \<and> sol_m2 s = 0"
    if "obtener_z_sugerido alto ancho 0 r = Inr (Some (Valido s))" for s
    using that by (rule obtener_cero)
  have 3: "0 < sol_ml s \<and> 0 < sol_m2 s"
    if "obtener_z_sugerido alto ancho 1 r = Inr (Some (Valido s))" for s
    using that by (intro obtener_positivo [of 1 alto ancho r s]) simp_all
  show ?thesis using 1 2 3 by blast
qed

theorem C9_cantidad_cero_witness:
  "(\<exists>f. calcular_z_y_metraje 400 30 0 ''ETIQUETA'' ''C1'' None [] = Inr (f, [])
        \<and> calcular_z_y_metraje 400 30 1 ''ETIQUETA'' ''C1'' None [] = Inr (f, [])
        \<and> f_Z_Sugerido f = Some 127 \<and> f_ML_sin_merma f = Some 0.04
        \<and> f_M2_sin_merma f = Some 0.01)
   \<and> (\<exists>s. obtener_z_sugerido 400 30 0 None = Inr (Some (Valido s))
          \<and> sol_z s = 168 \<and> sol_repeticiones s = 0 \<and> sol_ml s = 0 \<and> sol_m2 s = 0)
   \<and> (\<exists>s. obtener_z_sugerido 400 30 1 None = Inr (Some (Valido s))
          \<and> sol_z s = 127 \<and> 0 < sol_ml s \<and> 0 < sol_m2 s)"
proof -
  note c9 = C9_cantidad_cero [of 400 30 "''ETIQUETA''" "''C1''" None "[]" None]
  have o0: "\<exists>s. obtener_z_sugerido 400 30 0 None = Inr (Some (Valido s))"
    using obtener_400_cero [of None] by (simp add: ROLLO_BASE_MM_def)
  have o1: "\<exists>s. obtener_z_sugerido 400 30 1 None = Inr (Some (Valido s)) \<and> sol_z s = 127"
    using obtener_400_uno [of None] by (simp add: ROLLO_BASE_MM_def)
  define f where "f = fila_solucion 30 \<lparr>sol_z = 127, sol_n = 1, sol_desarrollo_mm = 403.225,
            sol_gap_vertical = 3.225, sol_etq_eje = 9,
            sol_gap_horizontal_real = Some 5, sol_etq_repeat = 9,
            sol_repeticiones = 1 / 9, sol_ml = 403.975 / 9000,
            sol_m2 = 403.975 / 9000 * 0.33, sol_ancho_rollo_mm = 330,
            sol_rollo_alternativo = False\<rparr>"
  have fz: "f_Z_Sugerido f = Some 127" by (simp add: f_def fila_solucion_def Let_def)
  have "f_ML_sin_merma f = Some (py_round (403.975 / 9000) 2)"
    by (simp add: f_def fila_solucion_def Let_def)
  then have fml: "f_ML_sin_merma f = Some 0.04" unfolding redondeo_ml_400 .
  have "f_M2_sin_merma f = Some (py_round (403.975 / 9000 * 0.33) 2)"
    by (simp add: f_def fila_solucion_def Let_def)
  then have fm2: "f_M2_sin_merma f = Some 0.01" unfolding redondeo_m2_400 .
  have "calcular_z_y_metraje 400 30 1 ''ETIQUETA'' ''C1'' None [] = Inr (f, [])"
    unfolding f_def by (rule fila_400)
  then have f1: "\<exists>f. calcular_z_y_metraje 400 30 1 ''ETIQUETA'' ''C1'' None [] = Inr (f, [])
        \<and> f_Z_Sugerido f = Some 127 \<and> f_ML_sin_merma f = Some 0.04
        \<and> f_M2_sin_merma f = Some 0.01"
    using fz fml fm2 by blast
  have p1: "\<exists>f. calcular_z_y_metraje 400 30 0 ''ETIQUETA'' ''C1'' None [] = Inr (f, [])
        \<and> calcular_z_y_metraje 400 30 1 ''ETIQUETA'' ''C1'' None [] = Inr (f, [])
        \<and> f_Z_Sugerido f = Some 127 \<and> f_ML_sin_merma f = Some 0.04
        \<and> f_M2_sin_merma f = Some 0.01"
    using f1 c9 by simp
  have p2: "\<exists>s. obtener_z_sugerido 400 30 0 None = Inr (Some (Valido s))
          \<and> sol_z s = 168 \<and> sol_repeticiones s = 0 \<and> sol_ml s = 0 \<and> sol_m2 s = 0"
    using o0 c9 by blast
  have p3: "\<exists>s. obtener_z_sugerido 400 30 1 None = Inr (Some (Valido s))
          \<and> sol_z s = 127 \<and> 0 < sol_ml s \<and> 0 < sol_m2 s"
    using o1 c9 by blast
  show ?thesis using p1 p2 p3 by blast
qed

text \<open>
  The claim as the specification words it fails for a label 400 mm high and 30 mm wide
  on the 330 mm roll: with the quantity 0 the optimizer returns the cylinder 168 with 0
  linear meters and 0 square meters, with the quantity 1 the cylinder 127.
\<close>

theorem C9_counterexample:
  "obtener_z_sugerido 400 30 0 None =
     Inr (Some (Valido \<lparr>sol_z = 168, sol_n = 1, sol_desarrollo_mm = 533.4,
            sol_gap_vertical = 133.4, sol_etq_eje = 9,
            sol_gap_horizontal_real = Some 5, sol_etq_repeat = 9,
            sol_repeticiones = 0, sol_ml = 0, sol_m2 = 0, sol_ancho_rollo_mm = 330,
            sol_rollo_alternativo = False\<rparr>))
   \<and> obtener_z_sugerido 400 30 1 None =
     Inr (Some (Valido \<lparr>sol_z = 127, sol_n = 1, sol_desarrollo_mm = 403.225,
            sol_gap_vertical = 3.225, sol_etq_eje = 9,
            sol_gap_horizontal_real = Some 5, sol_etq_repeat = 9,
            sol_repeticiones = 1 / 9, sol_ml = 403.975 / 9000,
            sol_m2 = 403.975 / 9000 * 0.33, sol_ancho_rollo_mm = 330,
            sol_rollo_alternativo = False\<rparr>))"
  using obtener_400_cero [of None] obtener_400_uno [of None] by (simp add: ROLLO_BASE_MM_def)

end
